theory Spec2Isabelle
  imports Complex_Main
begin

section \<open>Configuration (the config module)\<close>

text \<open>
  The fields of the configuration object that the writer and the consumer read.
  \<open>parseInt\<close> results are integers, \<open>backoffMultiplier\<close> comes from \<open>parseFloat\<close>;
  delays are computed over the reals (rounding of doubles is not modelled).
\<close>

record kafka_config =
  topic :: string
  dlqTopic :: string

record circuitBreaker_config =
  failureThreshold :: int
  successThreshold :: int
  timeoutMs :: int

record retry_config =
  initialDelay :: int
  maxDelay :: int
  maxAttempts :: int
  backoffMultiplier :: real

record config =
  kafka :: kafka_config
  circuitBreaker :: circuitBreaker_config
  retry :: retry_config

text \<open>The defaults of the config module (used when the environment sets nothing).\<close>

definition defaultConfig :: config where
  "defaultConfig =
     \<lparr>kafka = \<lparr>topic = ''events-v1'', dlqTopic = ''events-v1-dlq''\<rparr>,
      circuitBreaker = \<lparr>failureThreshold = 5, successThreshold = 2, timeoutMs = 30000\<rparr>,
      retry = \<lparr>initialDelay = 1000, maxDelay = 30000, maxAttempts = 3, backoffMultiplier = 2\<rparr>\<rparr>"

section \<open>Values\<close>

text \<open>What \<open>JSON.parse\<close> returns. An object is its list of members in source order.\<close>

datatype json =
    JNull
  | JBool bool
  | JNum real
  | JStr string
  | JArr "json list"
  | JObj "(string \<times> json) list"

text \<open>A parsed CloudEvent is a JSON object: its members.\<close>

type_synonym event = "(string \<times> json) list"

text \<open>Property read \<open>event.name\<close>: \<open>None\<close> is \<open>undefined\<close>; of a repeated member the last one counts.\<close>

definition getProp :: "event \<Rightarrow> string \<Rightarrow> json option" where
  "getProp members name = map_of (rev members) name"

text \<open>JavaScript truthiness of a property value, as \<open>!event.id\<close> tests it.\<close>

fun truthy :: "json option \<Rightarrow> bool" where
  "truthy None = False"
| "truthy (Some JNull) = False"
| "truthy (Some (JBool b)) = b"
| "truthy (Some (JNum x)) = (x \<noteq> 0)"
| "truthy (Some (JStr s)) = (s \<noteq> [])"
| "truthy (Some (JArr xs)) = True"
| "truthy (Some (JObj members)) = True"

text \<open>\<open>Number.prototype.toString\<close> on an integer: its decimal digits.\<close>

fun natToString :: "nat \<Rightarrow> string" where
  "natToString n =
     (if n < 10 then [''0123456789'' ! n]
      else natToString (n div 10) @ [''0123456789'' ! (n mod 10)])"

declare natToString.simps [simp del]

definition toString :: "int \<Rightarrow> string" where
  "toString i = (if i < 0 then CHR ''-'' # natToString (nat (- i)) else natToString (nat i))"

text \<open>Errors thrown by the writer, the store, the dead-letter producer and the heartbeat.\<close>

datatype error =
    CircuitOpenError
  | StoreError string
  | DeadLetterAppendError string
  | HeartbeatError string

fun message :: "error \<Rightarrow> string" where
  "message CircuitOpenError = ''Circuit breaker is OPEN - MongoDB writes are temporarily disabled''"
| "message (StoreError m) = m"
| "message (DeadLetterAppendError m) = m"
| "message (HeartbeatError m) = m"

section \<open>The writer's state (class MongoDBWriter)\<close>

datatype CircuitState = CLOSED | OPEN | HALF_OPEN

record writer_metrics =
  totalWrites :: int
  successfulWrites :: int
  failedWrites :: int
  duplicateWrites :: int
  batchWrites :: int

record MongoDBWriter =
  circuitState :: CircuitState
  failureCount :: int
  successCount :: int
  lastFailureTime :: "int option"
  metrics :: writer_metrics

text \<open>The state the constructor sets up.\<close>

definition newWriter :: MongoDBWriter where
  "newWriter =
     \<lparr>circuitState = CLOSED, failureCount = 0, successCount = 0, lastFailureTime = None,
      metrics = \<lparr>totalWrites = 0, successfulWrites = 0, failedWrites = 0,
                 duplicateWrites = 0, batchWrites = 0\<rparr>\<rparr>"

subsection \<open>Circuit breaker\<close>

text \<open>
  \<open>canExecute\<close>, with the reading of \<open>Date.now()\<close> as the argument \<open>now\<close> (read in
  the OPEN state only). \<open>now - this.lastFailureTime\<close> takes \<open>null\<close> as 0.
\<close>

definition canExecute :: "config \<Rightarrow> int \<Rightarrow> MongoDBWriter \<Rightarrow> bool \<times> MongoDBWriter" where
  "canExecute cfg now s =
     (if circuitState s = CLOSED then (True, s)
      else if circuitState s = OPEN then
        (let timeSinceLastFailure = now - (case lastFailureTime s of None \<Rightarrow> 0 | Some t \<Rightarrow> t)
         in if timeSinceLastFailure \<ge> timeoutMs (circuitBreaker cfg)
            then (True, s\<lparr>circuitState := HALF_OPEN, successCount := 0\<rparr>)
            else (False, s))
      else (True, s))"

definition recordSuccess :: "config \<Rightarrow> MongoDBWriter \<Rightarrow> MongoDBWriter" where
  "recordSuccess cfg s0 =
     (let s = s0\<lparr>failureCount := 0\<rparr>
      in if circuitState s = HALF_OPEN then
           (let s1 = s\<lparr>successCount := successCount s + 1\<rparr>
            in if successCount s1 \<ge> successThreshold (circuitBreaker cfg)
               then s1\<lparr>circuitState := CLOSED, successCount := 0\<rparr>
               else s1)
         else s)"

definition recordFailure :: "config \<Rightarrow> int \<Rightarrow> MongoDBWriter \<Rightarrow> MongoDBWriter" where
  "recordFailure cfg now s0 =
     (let s = s0\<lparr>failureCount := failureCount s0 + 1, lastFailureTime := Some now\<rparr>
      in if circuitState s = HALF_OPEN then s\<lparr>circuitState := OPEN\<rparr>
         else if failureCount s \<ge> failureThreshold (circuitBreaker cfg)
              then s\<lparr>circuitState := OPEN\<rparr>
              else s)"



section \<open>The consumer's state (class KafkaEventConsumer)\<close>

record consumer_metrics =
  messagesReceived :: int
  messagesProcessed :: int
  messagesFailed :: int
  batchesProcessed :: int
  dlqMessages :: int
  lastProcessedTimestamp :: "int option"
  consumerLag :: int

record KafkaEventConsumer =
  isRunning :: bool
  consumerMetrics :: consumer_metrics

definition newConsumer :: KafkaEventConsumer where
  "newConsumer =
     \<lparr>isRunning = False,
      consumerMetrics = \<lparr>messagesReceived = 0, messagesProcessed = 0, messagesFailed = 0,
        batchesProcessed = 0, dlqMessages = 0, lastProcessedTimestamp = None, consumerLag = 0\<rparr>\<rparr>"

text \<open>A Kafka message of a batch, and the message appended to the dead-letter topic.\<close>

record kafkaMessage =
  msg_key :: "string option"
  msg_value :: "string option"
  msg_headers :: "string \<rightharpoonup> string"
  msg_offset :: int

record dlqMessage =
  dlq_key :: "string option"
  dlq_value :: "string option"
  dlq_headers :: "string \<rightharpoonup> string"

record batch =
  batch_topic :: string
  batch_partition :: int
  messages :: "kafkaMessage list"

record write_result =
  success :: bool
  inserted :: bool
  eventId :: "json option"
  duplicate :: "bool option"

section \<open>The environment\<close>

text \<open>
  What the code reads from outside, as functions of the number of earlier reads:
  the clock, the JSON parser, the faults of the store, of the dead-letter producer and of
  the heartbeat (\<open>Some m\<close> is a rejection with message \<open>m\<close>), and the shutdown flags as
  the loop of \<open>processBatch\<close> finds them at its k-th check: the result of the runner's
  \<open>isRunning()\<close>, and the field \<open>isShuttingDown\<close>, which \<open>shutdown\<close> sets while a batch is
  in progress.
\<close>

record env =
  clock :: "nat \<Rightarrow> int"
  jsonParse :: "string \<Rightarrow> json option"
  updateOneFault :: "nat \<Rightarrow> string option"
  dlqSendFault :: "nat \<Rightarrow> string option"
  heartbeatFault :: "nat \<Rightarrow> string option"
  isRunningAt :: "nat \<Rightarrow> bool"
  isShuttingDownAt :: "nat \<Rightarrow> bool"

text \<open>
  The state the code changes: the two singletons, the MongoDB collection (documents by
  their \<open>_id\<close>, in insertion order), the dead-letter topic, the offsets passed to
  \<open>resolveOffset\<close>, the timer delays awaited, and how often each outside call, and
  \<open>writeEvent\<close> itself, was made.
\<close>

record world =
  writer :: MongoDBWriter
  consumer :: KafkaEventConsumer
  collection :: "(json option \<times> event) list"
  dlqChannel :: "(string \<times> dlqMessage) list"
  resolvedOffsets :: "int list"
  sleeps :: "real list"
  nowCalls :: nat
  updateOneCalls :: nat
  dlqSendCalls :: nat
  heartbeatCalls :: nat
  runningChecks :: nat
  writeEventCalls :: nat

definition newWorld :: world where
  "newWorld =
     \<lparr>writer = newWriter, consumer = newConsumer\<lparr>isRunning := True\<rparr>, collection = [],
      dlqChannel = [], resolvedOffsets = [], sleeps = [], nowCalls = 0, updateOneCalls = 0,
      dlqSendCalls = 0, heartbeatCalls = 0, runningChecks = 0, writeEventCalls = 0\<rparr>"

definition dateNow :: "env \<Rightarrow> world \<Rightarrow> int \<times> world" where
  "dateNow env w = (clock env (nowCalls w), w\<lparr>nowCalls := Suc (nowCalls w)\<rparr>)"

section \<open>Writing to the store\<close>

text \<open>
  \<open>collection.updateOne({_id}, {$setOnInsert: document}, {upsert: true})\<close> of the MongoDB
  driver: the document is inserted when no document has this \<open>_id\<close>, and the result's
  \<open>upsertedCount\<close> says so; a fault rejects the call and changes nothing.
\<close>

definition updateOne :: "env \<Rightarrow> json option \<Rightarrow> event \<Rightarrow> world \<Rightarrow> (error + nat) \<times> world" where
  "updateOne env docId document w =
     (let w1 = w\<lparr>updateOneCalls := Suc (updateOneCalls w)\<rparr>
      in case updateOneFault env (updateOneCalls w) of
           Some m \<Rightarrow> (Inl (StoreError m), w1)
         | None \<Rightarrow>
             if docId \<in> set (map fst (collection w)) then (Inr 0, w1)
             else (Inr 1, w1\<lparr>collection := collection w @ [(docId, document)]\<rparr>))"

text \<open>\<open>{_id: event.id, ...event}\<close>: a member \<open>_id\<close> of the event replaces \<open>event.id\<close>.\<close>

definition documentId :: "event \<Rightarrow> json option" where
  "documentId event =
     (case getProp event ''_id'' of Some v \<Rightarrow> Some v | None \<Rightarrow> getProp event ''id'')"

text \<open>\<open>canExecute\<close>, \<open>recordSuccess\<close> and \<open>recordFailure\<close> on the writer of the world.\<close>

definition canExecuteW :: "env \<Rightarrow> config \<Rightarrow> world \<Rightarrow> bool \<times> world" where
  "canExecuteW env cfg w =
     (let (ok, s) = canExecute cfg (clock env (nowCalls w)) (writer w)
      in (ok, w\<lparr>writer := s,
                nowCalls := (if circuitState (writer w) = OPEN then Suc (nowCalls w)
                             else nowCalls w)\<rparr>))"

definition recordSuccessW :: "config \<Rightarrow> world \<Rightarrow> world" where
  "recordSuccessW cfg w = w\<lparr>writer := recordSuccess cfg (writer w)\<rparr>"

definition recordFailureW :: "env \<Rightarrow> config \<Rightarrow> world \<Rightarrow> world" where
  "recordFailureW env cfg w =
     (let (now, w1) = dateNow env w in w1\<lparr>writer := recordFailure cfg now (writer w1)\<rparr>)"

definition bumpMetrics :: "(writer_metrics \<Rightarrow> writer_metrics) \<Rightarrow> world \<Rightarrow> world" where
  "bumpMetrics f w = w\<lparr>writer := (writer w)\<lparr>metrics := f (metrics (writer w))\<rparr>\<rparr>"

definition writeEvent :: "env \<Rightarrow> config \<Rightarrow> event \<Rightarrow> world \<Rightarrow> (error + write_result) \<times> world" where
  "writeEvent env cfg event w0 =
     (let (ok, w1) = canExecuteW env cfg (w0\<lparr>writeEventCalls := Suc (writeEventCalls w0)\<rparr>)
      in if \<not> ok then (Inl CircuitOpenError, w1)
         else
           (let w2 = bumpMetrics (\<lambda>m. m\<lparr>totalWrites := totalWrites m + 1\<rparr>) w1;
                (res, w3) = updateOne env (documentId event) event w2
            in case res of
                 Inr upsertedCount \<Rightarrow>
                   if upsertedCount > 0 then
                     (Inr \<lparr>success = True, inserted = True, eventId = getProp event ''id'',
                           duplicate = None\<rparr>,
                      recordSuccessW cfg
                        (bumpMetrics (\<lambda>m. m\<lparr>successfulWrites := successfulWrites m + 1\<rparr>) w3))
                   else
                     (Inr \<lparr>success = True, inserted = False, eventId = getProp event ''id'',
                           duplicate = Some True\<rparr>,
                      recordSuccessW cfg
                        (bumpMetrics (\<lambda>m. m\<lparr>duplicateWrites := duplicateWrites m + 1\<rparr>) w3))
               | Inl e \<Rightarrow>
                   (Inl e,
                    recordFailureW env cfg
                      (bumpMetrics (\<lambda>m. m\<lparr>failedWrites := failedWrites m + 1\<rparr>) w3))))"

text \<open>The delay before the retry that follows failing attempt \<open>attempt\<close> (counted from 1).\<close>

definition retryDelay :: "config \<Rightarrow> nat \<Rightarrow> real" where
  "retryDelay cfg attempt =
     min (real_of_int (initialDelay (retry cfg)) * backoffMultiplier (retry cfg) ^ (attempt - 1))
         (real_of_int (maxDelay (retry cfg)))"

definition sleep :: "real \<Rightarrow> world \<Rightarrow> world" where
  "sleep delay w = w\<lparr>sleeps := sleeps w @ [delay]\<rparr>"

function writeEventWithRetry ::
  "env \<Rightarrow> config \<Rightarrow> event \<Rightarrow> nat \<Rightarrow> world \<Rightarrow> (error + write_result) \<times> world" where
  "writeEventWithRetry env cfg event attempt w =
     (case writeEvent env cfg event w of
        (Inr r, w1) \<Rightarrow> (Inr r, w1)
      | (Inl e, w1) \<Rightarrow>
          if int attempt \<ge> maxAttempts (retry cfg) then (Inl e, w1)
          else writeEventWithRetry env cfg event (attempt + 1)
                 (sleep (retryDelay cfg attempt) w1))"
  by pat_completeness auto
termination
  by (relation "measure (\<lambda>(env, cfg, event, attempt, w). nat (maxAttempts (retry cfg) - int attempt))")
    auto

declare writeEventWithRetry.simps [simp del]

text \<open>
  The world before attempt \<open>k + 1\<close> when the \<open>k\<close> attempts before it are counted without
  the waits between them (a wait only extends the list of delays), and whether attempt
  \<open>k + 1\<close> fails there.
\<close>

definition attemptWorld :: "env \<Rightarrow> config \<Rightarrow> event \<Rightarrow> nat \<Rightarrow> world \<Rightarrow> world" where
  "attemptWorld env cfg event k w = ((\<lambda>w'. snd (writeEvent env cfg event w')) ^^ k) w"

definition attemptFails :: "env \<Rightarrow> config \<Rightarrow> event \<Rightarrow> world \<Rightarrow> nat \<Rightarrow> bool" where
  "attemptFails env cfg event w k = isl (fst (writeEvent env cfg event (attemptWorld env cfg event k w)))"

section \<open>The consumer\<close>

text \<open>
  \<open>parseMessage\<close>: \<open>message.value.toString()\<close> throws on a \<open>null\<close> value, \<open>JSON.parse\<close>
  on bytes that are no JSON, and \<open>event.id\<close> on \<open>null\<close>; each is caught and gives \<open>null\<close>
  (\<open>None\<close>). On a number, string, boolean or array the four properties are \<open>undefined\<close>.
\<close>

definition parseMessage :: "env \<Rightarrow> kafkaMessage \<Rightarrow> event option" where
  "parseMessage env m =
     (case msg_value m of
        None \<Rightarrow> None
      | Some bytes \<Rightarrow>
          (case jsonParse env bytes of
             Some (JObj members) \<Rightarrow>
               if \<not> truthy (getProp members ''id'') \<or> \<not> truthy (getProp members ''type'') \<or>
                  \<not> truthy (getProp members ''source'') \<or> \<not> truthy (getProp members ''time'')
               then None
               else Some members
           | _ \<Rightarrow> None))"

definition bumpConsumer :: "(consumer_metrics \<Rightarrow> consumer_metrics) \<Rightarrow> world \<Rightarrow> world" where
  "bumpConsumer f w =
     w\<lparr>consumer := (consumer w)\<lparr>consumerMetrics := f (consumerMetrics (consumer w))\<rparr>\<rparr>"

text \<open>The message \<open>sendToDLQ\<close> builds: the spread of the headers, then the three new ones.\<close>

definition dlqMessageOf :: "config \<Rightarrow> kafkaMessage \<Rightarrow> string \<Rightarrow> int \<Rightarrow> dlqMessage" where
  "dlqMessageOf cfg m errorReason now =
     \<lparr>dlq_key = msg_key m,
      dlq_value = msg_value m,
      dlq_headers = (msg_headers m)
        (''x-error-reason'' \<mapsto> errorReason,
         ''x-failed-timestamp'' \<mapsto> toString now,
         ''x-original-topic'' \<mapsto> topic (kafka cfg))\<rparr>"

definition sendToDLQ ::
  "env \<Rightarrow> config \<Rightarrow> kafkaMessage \<Rightarrow> string \<Rightarrow> world \<Rightarrow> error option \<times> world" where
  "sendToDLQ env cfg m errorReason w =
     (let w1 = bumpConsumer (\<lambda>c. c\<lparr>dlqMessages := dlqMessages c + 1\<rparr>) w;
          (now, w2) = dateNow env w1;
          w3 = w2\<lparr>dlqSendCalls := Suc (dlqSendCalls w2)\<rparr>
      in case dlqSendFault env (dlqSendCalls w2) of
           Some e \<Rightarrow> (Some (DeadLetterAppendError e), w3)
         | None \<Rightarrow>
             (None, w3\<lparr>dlqChannel := dlqChannel w3 @
                [(dlqTopic (kafka cfg), dlqMessageOf cfg m errorReason now)]\<rparr>))"

definition resolveOffset :: "int \<Rightarrow> world \<Rightarrow> world" where
  "resolveOffset off w = w\<lparr>resolvedOffsets := resolvedOffsets w @ [off]\<rparr>"

definition heartbeat :: "env \<Rightarrow> world \<Rightarrow> error option \<times> world" where
  "heartbeat env w =
     (map_option HeartbeatError (heartbeatFault env (heartbeatCalls w)),
      w\<lparr>heartbeatCalls := Suc (heartbeatCalls w)\<rparr>)"

text \<open>The loop's test \<open>!isRunning() || this.isShuttingDown\<close>.\<close>

definition shutdownDetected :: "env \<Rightarrow> world \<Rightarrow> bool \<times> world" where
  "shutdownDetected env w =
     (\<not> isRunningAt env (runningChecks w) \<or> isShuttingDownAt env (runningChecks w),
      w\<lparr>runningChecks := Suc (runningChecks w)\<rparr>)"

text \<open>The \<open>try\<close> block of the loop body; \<open>Some e\<close> is what it throws.\<close>

definition processMessageTry ::
  "env \<Rightarrow> config \<Rightarrow> kafkaMessage \<Rightarrow> world \<Rightarrow> error option \<times> world" where
  "processMessageTry env cfg m w =
     (case parseMessage env m of
        None \<Rightarrow>
          (case sendToDLQ env cfg m ''Invalid message format'' w of
             (Some e, w1) \<Rightarrow> (Some e, w1)
           | (None, w1) \<Rightarrow> (None, resolveOffset (msg_offset m) w1))
      | Some event \<Rightarrow>
          (case writeEventWithRetry env cfg event 1 w of
             (Inl e, w1) \<Rightarrow> (Some e, w1)
           | (Inr result, w1) \<Rightarrow>
               (let w2 =
                      (if success result then
                         (let (now, w') =
                                dateNow env
                                  (bumpConsumer
                                     (\<lambda>c. c\<lparr>messagesProcessed := messagesProcessed c + 1\<rparr>) w1)
                          in bumpConsumer (\<lambda>c. c\<lparr>lastProcessedTimestamp := Some now\<rparr>) w')
                       else w1)
                in heartbeat env (resolveOffset (msg_offset m) w2))))"

text \<open>The loop body: the \<open>try\<close> block and its \<open>catch\<close>.\<close>

definition processMessage ::
  "env \<Rightarrow> config \<Rightarrow> kafkaMessage \<Rightarrow> world \<Rightarrow> error option \<times> world" where
  "processMessage env cfg m w =
     (case processMessageTry env cfg m w of
        (None, w1) \<Rightarrow> (None, w1)
      | (Some e, w1) \<Rightarrow>
          (case sendToDLQ env cfg m (message e)
                  (bumpConsumer (\<lambda>c. c\<lparr>messagesFailed := messagesFailed c + 1\<rparr>) w1) of
             (None, w2) \<Rightarrow> (None, resolveOffset (msg_offset m) w2)
           | (Some dlqError, w2) \<Rightarrow> (Some dlqError, w2)))"

fun processMessages ::
  "env \<Rightarrow> config \<Rightarrow> kafkaMessage list \<Rightarrow> world \<Rightarrow> error option \<times> world" where
  "processMessages env cfg [] w = (None, w)"
| "processMessages env cfg (m # ms) w =
     (let (stop, w1) = shutdownDetected env w
      in if stop then (None, w1)
         else (case processMessage env cfg m w1 of
                 (Some e, w2) \<Rightarrow> (Some e, w2)
               | (None, w2) \<Rightarrow> processMessages env cfg ms w2))"

definition processBatch :: "env \<Rightarrow> config \<Rightarrow> batch \<Rightarrow> world \<Rightarrow> error option \<times> world" where
  "processBatch env cfg b w =
     (case processMessages env cfg (messages b)
             (bumpConsumer
                (\<lambda>c. c\<lparr>messagesReceived := messagesReceived c + int (length (messages b))\<rparr>) w) of
        (Some e, w1) \<Rightarrow> (Some e, w1)
      | (None, w1) \<Rightarrow>
          (None, bumpConsumer (\<lambda>c. c\<lparr>batchesProcessed := batchesProcessed c + 1\<rparr>) w1))"

subsection \<open>The handler registered by \<open>start\<close>\<close>

text \<open>
  \<open>start\<close> calls \<open>consumer.run\<close> with \<open>eachBatchAutoResolve: true\<close> and a handler
  \<open>eachBatch\<close> that calls \<open>processBatch\<close>. The runner of the kafkajs library (not part of
  this repository) returns before the handler on a batch without messages; otherwise it
  calls the handler and, when the option is set and the handler has returned without
  throwing, resolves the last offset of the batch itself.
\<close>

definition eachBatchAutoResolve :: bool where
  "eachBatchAutoResolve = True"

definition eachBatch :: "env \<Rightarrow> config \<Rightarrow> batch \<Rightarrow> world \<Rightarrow> error option \<times> world" where
  "eachBatch env cfg b w = processBatch env cfg b w"

definition runEachBatch :: "env \<Rightarrow> config \<Rightarrow> batch \<Rightarrow> world \<Rightarrow> error option \<times> world" where
  "runEachBatch env cfg b w =
     (if messages b = [] then (None, w)
      else
        (case eachBatch env cfg b w of
           (Some e, w1) \<Rightarrow> (Some e, w1)
         | (None, w1) \<Rightarrow>
             (None,
              if eachBatchAutoResolve
              then resolveOffset (msg_offset (last (messages b))) w1
              else w1)))"

text \<open>
  A record counts as stored when the collection holds a document under the \<open>_id\<close> that
  \<open>writeEvent\<close> gives the record's document, whichever record that document was inserted
  for; it counts as dead-lettered when the dead-letter topic holds a message with its key
  and value. It is durably handled when it is stored or dead-lettered in this sense.
\<close>

definition stored :: "env \<Rightarrow> world \<Rightarrow> kafkaMessage \<Rightarrow> bool" where
  "stored env w m =
     (case parseMessage env m of
        None \<Rightarrow> False
      | Some event \<Rightarrow> documentId event \<in> set (map fst (collection w)))"

definition deadLettered :: "world \<Rightarrow> kafkaMessage \<Rightarrow> bool" where
  "deadLettered w m =
     list_ex (\<lambda>d. dlq_key (snd d) = msg_key m \<and> dlq_value (snd d) = msg_value m) (dlqChannel w)"

definition durablyHandled :: "env \<Rightarrow> world \<Rightarrow> kafkaMessage \<Rightarrow> bool" where
  "durablyHandled env w m = (stored env w m \<or> deadLettered w m)"

text \<open>
  Every resolved offset is the offset of a record of \<open>ms\<close> that is durably handled; and
  the store and the dead-letter topic of \<open>w'\<close> hold what those of \<open>w\<close> hold.
\<close>

definition resolvedAreHandled :: "env \<Rightarrow> kafkaMessage list \<Rightarrow> world \<Rightarrow> bool" where
  "resolvedAreHandled env ms w =
     list_all (\<lambda>off. list_ex (\<lambda>m. msg_offset m = off \<and> durablyHandled env w m) ms)
       (resolvedOffsets w)"

definition keeps :: "world \<Rightarrow> world \<Rightarrow> bool" where
  "keeps w w' =
     (set (map fst (collection w)) \<subseteq> set (map fst (collection w')) \<and>
      set (dlqChannel w) \<subseteq> set (dlqChannel w'))"

text \<open>
  What one round does to the resolved offsets: nothing, or it adds the offset of its
  record, and then the record is durably handled.
\<close>

definition handles :: "env \<Rightarrow> kafkaMessage \<Rightarrow> world \<Rightarrow> world \<Rightarrow> bool" where
  "handles env m w w' =
     (keeps w w' \<and>
      (set (resolvedOffsets w') = set (resolvedOffsets w) \<or>
       set (resolvedOffsets w') = insert (msg_offset m) (set (resolvedOffsets w)) \<and>
       durablyHandled env w' m))"

subsection \<open>Health\<close>

datatype health = Healthy | Degraded | Unhealthy

text \<open>
  The \<open>status\<close> of \<open>healthCheck\<close>, with the reading of \<open>Date.now()\<close> as \<open>now\<close>. The
  conditional \<open>lastProcessedTimestamp ? ... : null\<close> and the test
  \<open>timeSinceLastMessage && ...\<close> take \<open>null\<close> and 0 as false.
\<close>

definition healthCheck :: "int \<Rightarrow> KafkaEventConsumer \<Rightarrow> health" where
  "healthCheck now c =
     (if \<not> isRunning c then Unhealthy
      else
        (let timeSinceLastMessage =
               (case lastProcessedTimestamp (consumerMetrics c) of
                  None \<Rightarrow> None
                | Some t \<Rightarrow> if t = 0 then None else Some (now - t))
         in if (case timeSinceLastMessage of
                  None \<Rightarrow> False
                | Some d \<Rightarrow> d \<noteq> 0 \<and> d > 300000)
            then Degraded
            else Healthy))"

text \<open>
  The specification's condition for \<open>degraded\<close>: no record has been processed within
  the staleness window \<open>window\<close> before \<open>now\<close>.
\<close>

definition noneProcessedWithin :: "int \<Rightarrow> int \<Rightarrow> KafkaEventConsumer \<Rightarrow> bool" where
  "noneProcessedWithin window now c =
     (case lastProcessedTimestamp (consumerMetrics c) of
        None \<Rightarrow> True
      | Some t \<Rightarrow> now - t > window)"

section \<open>Sample inputs\<close>

text \<open>
  A CloudEvent with the four required members, a parser that knows three byte strings
  (the third decodes to an event with an empty \<open>id\<close>), a message carrying given bytes at
  a given offset, and an environment without faults or shutdown.
\<close>

definition sampleEvent :: "string \<Rightarrow> event" where
  "sampleEvent i =
     [(''id'', JStr i), (''type'', JStr ''user.created''), (''source'', JStr ''/users''),
      (''time'', JStr ''2025-01-01T00:00:00Z'')]"

definition sampleParse :: "string \<Rightarrow> json option" where
  "sampleParse bytes =
     (if bytes = ''{id:e1}'' then Some (JObj (sampleEvent ''e1''))
      else if bytes = ''{id:e2}'' then Some (JObj (sampleEvent ''e2''))
      else if bytes = ''{id:}'' then Some (JObj (sampleEvent ''''))
      else None)"

definition sampleMessage :: "string \<Rightarrow> int \<Rightarrow> kafkaMessage" where
  "sampleMessage bytes off =
     \<lparr>msg_key = Some ''k'', msg_value = Some bytes, msg_headers = [''trace'' \<mapsto> ''abc''],
      msg_offset = off\<rparr>"

definition sampleEnv :: env where
  "sampleEnv =
     \<lparr>clock = (\<lambda>k. 1000 + int k), jsonParse = sampleParse, updateOneFault = (\<lambda>k. None),
      dlqSendFault = (\<lambda>k. None), heartbeatFault = (\<lambda>k. None), isRunningAt = (\<lambda>k. True),
      isShuttingDownAt = (\<lambda>k. False)\<rparr>"

text \<open>The same environment with a store that faults on its first \<open>n\<close> calls.\<close>

definition flakyEnv :: "nat \<Rightarrow> env" where
  "flakyEnv n = sampleEnv\<lparr>updateOneFault := (\<lambda>k. if k < n then Some ''timeout'' else None)\<rparr>"

text \<open>
  The same environment with a consumer that is found stopped from the check numbered \<open>n\<close>
  on (checks are counted from 0), one whose dead-letter producer rejects every send, and
  a batch of the sample topic.
\<close>

definition shutdownEnv :: "nat \<Rightarrow> env" where
  "shutdownEnv n = sampleEnv\<lparr>isRunningAt := (\<lambda>k. k < n)\<rparr>"

definition dlqDownEnv :: env where
  "dlqDownEnv = sampleEnv\<lparr>dlqSendFault := (\<lambda>k. Some ''broker down'')\<rparr>"

definition sampleBatch :: "kafkaMessage list \<Rightarrow> batch" where
  "sampleBatch ms = \<lparr>batch_topic = ''events-v1'', batch_partition = 0, messages = ms\<rparr>"

text \<open>
  A valid record that has a member \<open>_id\<close> besides its \<open>id\<close>, and the store after the
  record with id \<open>x\<close> has been written to the empty store.
\<close>

definition memberIdEvent :: event where
  "memberIdEvent = (''_id'', JStr ''x'') # sampleEvent ''e1''"

definition memberIdWorld :: world where
  "memberIdWorld = snd (writeEvent sampleEnv defaultConfig (sampleEvent ''x'') newWorld)"

section \<open>The circuit breaker's transitions\<close>


















section \<open>Writing one event\<close>

lemmas writeEvent_defs =
  writeEvent_def canExecuteW_def updateOne_def bumpMetrics_def recordSuccessW_def
  recordFailureW_def dateNow_def Let_def

lemma canExecute_not_open: "circuitState s \<noteq> OPEN \<Longrightarrow> canExecute cfg now s = (True, s)"
  by (simp add: canExecute_def)

lemma canExecute_rejects:
  "\<not> fst (canExecute cfg now s) \<Longrightarrow> circuitState s = OPEN \<and> canExecute cfg now s = (False, s)"
  by (simp add: canExecute_def Let_def split: if_splits)

text \<open>A rejected call only reads the clock.\<close>

lemma writeEvent_rejected:
  assumes "\<not> fst (canExecute cfg (clock env (nowCalls w)) (writer w))"
  shows "writeEvent env cfg event w =
    (Inl CircuitOpenError,
     w\<lparr>nowCalls := Suc (nowCalls w), writeEventCalls := Suc (writeEventCalls w)\<rparr>)"
  using canExecute_rejects [OF assms]
  by (simp add: writeEvent_def canExecuteW_def)

lemma canExecute_admits:
  "fst (canExecute cfg now s) \<Longrightarrow> circuitState (snd (canExecute cfg now s)) \<noteq> OPEN"
  by (simp add: canExecute_def Let_def split: if_splits)

lemma canExecute_metrics: "metrics (snd (canExecute cfg now s)) = metrics s"
  by (simp add: canExecute_def Let_def)

lemma recordSuccess_keeps:
  "metrics (recordSuccess cfg s) = metrics s"
  "circuitState s \<noteq> OPEN \<Longrightarrow> circuitState (recordSuccess cfg s) \<noteq> OPEN"
  by (simp_all add: recordSuccess_def Let_def)

lemma recordFailure_metrics: "metrics (recordFailure cfg now s) = metrics s"
  by (simp add: recordFailure_def Let_def)

text \<open>An admitted write on which the store faults.\<close>

lemma writeEvent_faulted:
  assumes "fst (canExecute cfg (clock env (nowCalls w)) (writer w))"
    and "updateOneFault env (updateOneCalls w) = Some e"
  shows "fst (writeEvent env cfg event w) = Inl (StoreError e)"
    and "metrics (writer (snd (writeEvent env cfg event w))) =
      (metrics (writer w))\<lparr>totalWrites := totalWrites (metrics (writer w)) + 1,
         failedWrites := failedWrites (metrics (writer w)) + 1\<rparr>"
    and "collection (snd (writeEvent env cfg event w)) = collection w"
  using assms
  by (simp_all add: writeEvent_defs split_def recordFailure_metrics canExecute_metrics)

text \<open>An admitted write that the store answers: the result, the collection, the breaker.\<close>

lemma writeEvent_answered:
  assumes "fst (canExecute cfg (clock env (nowCalls w)) (writer w))"
    and "updateOneFault env (updateOneCalls w) = None"
  shows "writer (snd (writeEvent env cfg event w)) =
           recordSuccess cfg
             ((snd (canExecute cfg (clock env (nowCalls w)) (writer w)))
                \<lparr>metrics :=
                    (if documentId event \<in> set (map fst (collection w))
                     then (metrics (writer w))
                            \<lparr>totalWrites := totalWrites (metrics (writer w)) + 1,
                              duplicateWrites := duplicateWrites (metrics (writer w)) + 1\<rparr>
                     else (metrics (writer w))
                            \<lparr>totalWrites := totalWrites (metrics (writer w)) + 1,
                              successfulWrites := successfulWrites (metrics (writer w)) + 1\<rparr>)\<rparr>)"
  using assms
  by (simp add: writeEvent_defs split_def canExecute_metrics)

lemma writeEvent_stored:
  assumes "fst (canExecute cfg (clock env (nowCalls w)) (writer w))"
    and "updateOneFault env (updateOneCalls w) = None"
  shows "fst (writeEvent env cfg event w) =
           Inr \<lparr>success = True, inserted = (documentId event \<notin> set (map fst (collection w))),
                eventId = getProp event ''id'',
                duplicate =
                  (if documentId event \<in> set (map fst (collection w)) then Some True else None)\<rparr>"
    and "collection (snd (writeEvent env cfg event w)) =
           (if documentId event \<in> set (map fst (collection w)) then collection w
            else collection w @ [(documentId event, event)])"
    and "updateOneCalls (snd (writeEvent env cfg event w)) = Suc (updateOneCalls w)"
    and "circuitState (writer (snd (writeEvent env cfg event w))) \<noteq> OPEN"
    and "metrics (writer (snd (writeEvent env cfg event w))) =
           (if documentId event \<in> set (map fst (collection w))
            then (metrics (writer w))\<lparr>totalWrites := totalWrites (metrics (writer w)) + 1,
                   duplicateWrites := duplicateWrites (metrics (writer w)) + 1\<rparr>
            else (metrics (writer w))\<lparr>totalWrites := totalWrites (metrics (writer w)) + 1,
                   successfulWrites := successfulWrites (metrics (writer w)) + 1\<rparr>)"
proof -
  show "fst (writeEvent env cfg event w) =
           Inr \<lparr>success = True, inserted = (documentId event \<notin> set (map fst (collection w))),
                eventId = getProp event ''id'',
                duplicate =
                  (if documentId event \<in> set (map fst (collection w)) then Some True else None)\<rparr>"
    and "collection (snd (writeEvent env cfg event w)) =
           (if documentId event \<in> set (map fst (collection w)) then collection w
            else collection w @ [(documentId event, event)])"
    and "updateOneCalls (snd (writeEvent env cfg event w)) = Suc (updateOneCalls w)"
    using assms by (simp_all add: writeEvent_defs split_def)
  show "circuitState (writer (snd (writeEvent env cfg event w))) \<noteq> OPEN"
    using canExecute_admits [OF assms(1)]
    by (simp add: writeEvent_answered [OF assms] recordSuccess_keeps)
  show "metrics (writer (snd (writeEvent env cfg event w))) =
           (if documentId event \<in> set (map fst (collection w))
            then (metrics (writer w))\<lparr>totalWrites := totalWrites (metrics (writer w)) + 1,
                   duplicateWrites := duplicateWrites (metrics (writer w)) + 1\<rparr>
            else (metrics (writer w))\<lparr>totalWrites := totalWrites (metrics (writer w)) + 1,
                   successfulWrites := successfulWrites (metrics (writer w)) + 1\<rparr>)"
    by (simp add: writeEvent_answered [OF assms] recordSuccess_keeps)
qed

text \<open>What a call of \<open>writeEvent\<close> leaves alone, and that the delays awaited play no part.\<close>

lemma writeEvent_frame:
  "sleeps (snd (writeEvent env cfg event w)) = sleeps w"
  "writeEventCalls (snd (writeEvent env cfg event w)) = Suc (writeEventCalls w)"
  "dlqChannel (snd (writeEvent env cfg event w)) = dlqChannel w"
  "resolvedOffsets (snd (writeEvent env cfg event w)) = resolvedOffsets w"
  "consumer (snd (writeEvent env cfg event w)) = consumer w"
  by (simp_all add: writeEvent_defs split_def split: option.splits)

lemma writeEvent_sleeps:
  "writeEvent env cfg event (w\<lparr>sleeps := s\<rparr>) =
     (fst (writeEvent env cfg event w), (snd (writeEvent env cfg event w))\<lparr>sleeps := s\<rparr>)"
  by (simp add: writeEvent_defs split_def split: option.splits)

text \<open>
  Writing a record twice, keyed by the \<open>_id\<close> of the document that \<open>writeEvent\<close> builds
  (\<open>documentId\<close>: \<open>event.id\<close> only when the event has no member \<open>_id\<close>). When the store
  has no document under that \<open>_id\<close>, the breaker admits the first call and the store
  answers both calls, the first call returns \<open>inserted: true\<close>, the second
  \<open>inserted: false, duplicate: true\<close>, and the collection then holds exactly one
  document under that \<open>_id\<close>: the one the first call inserted. Nothing is said here about
  the entries under \<open>event.id\<close> of an event that has a member \<open>_id\<close>.
\<close>

lemma writeEvent_twice:
  assumes "documentId event \<notin> set (map fst (collection w))"
    and "fst (canExecute cfg (clock env (nowCalls w)) (writer w))"
    and "updateOneFault env (updateOneCalls w) = None"
    and "updateOneFault env (Suc (updateOneCalls w)) = None"
  shows "let w1 = snd (writeEvent env cfg event w);
             w2 = snd (writeEvent env cfg event w1)
         in fst (writeEvent env cfg event w) =
              Inr \<lparr>success = True, inserted = True, eventId = getProp event ''id'',
                   duplicate = None\<rparr> \<and>
            fst (writeEvent env cfg event w1) =
              Inr \<lparr>success = True, inserted = False, eventId = getProp event ''id'',
                   duplicate = Some True\<rparr> \<and>
            collection w2 = collection w @ [(documentId event, event)] \<and>
            length (filter (\<lambda>d. fst d = documentId event) (collection w2)) = 1 \<and>
            (getProp event ''_id'' = None \<longrightarrow> documentId event = getProp event ''id'')"
proof -
  define w1 where "w1 = snd (writeEvent env cfg event w)"
  define w2 where "w2 = snd (writeEvent env cfg event w1)"
  note first = writeEvent_stored [OF assms(2,3), of event, folded w1_def]
  have r1: "fst (writeEvent env cfg event w) =
      Inr \<lparr>success = True, inserted = True, eventId = getProp event ''id'', duplicate = None\<rparr>"
    using first(1) assms(1) by simp
  have c1: "collection w1 = collection w @ [(documentId event, event)]"
    using first(2) assms(1) by simp
  have adm: "fst (canExecute cfg (clock env (nowCalls w1)) (writer w1))"
    using first(4) by (simp add: canExecute_not_open)
  have nofault: "updateOneFault env (updateOneCalls w1) = None"
    using first(3) assms(4) by simp
  note second = writeEvent_stored [OF adm nofault, of event, folded w2_def]
  have r2: "fst (writeEvent env cfg event w1) =
      Inr \<lparr>success = True, inserted = False, eventId = getProp event ''id'',
           duplicate = Some True\<rparr>"
    using second(1) c1 by simp
  have c2: "collection w2 = collection w @ [(documentId event, event)]"
    using second(2) c1 by simp
  have "filter (\<lambda>d. fst d = documentId event) (collection w) = []"
    using assms(1) by (force simp: filter_empty_conv)
  then have one: "length (filter (\<lambda>d. fst d = documentId event) (collection w2)) = 1"
    by (simp add: c2)
  have "getProp event ''_id'' = None \<longrightarrow> documentId event = getProp event ''id''"
    by (simp add: documentId_def)
  with r1 r2 c2 one show ?thesis
    unfolding Let_def w1_def [symmetric] w2_def [symmetric] by simp
qed

lemma writeEvent_twice_sample:
  "documentId (sampleEvent ''e1'') \<notin> set (map fst (collection newWorld)) \<and>
   fst (canExecute defaultConfig (clock sampleEnv (nowCalls newWorld)) (writer newWorld)) \<and>
   updateOneFault sampleEnv (updateOneCalls newWorld) = None \<and>
   updateOneFault sampleEnv (Suc (updateOneCalls newWorld)) = None \<and>
   fst (writeEvent sampleEnv defaultConfig (sampleEvent ''e1'') newWorld) =
     Inr \<lparr>success = True, inserted = True, eventId = Some (JStr ''e1''), duplicate = None\<rparr> \<and>
   fst (writeEvent sampleEnv defaultConfig (sampleEvent ''e1'')
          (snd (writeEvent sampleEnv defaultConfig (sampleEvent ''e1'') newWorld))) =
     Inr \<lparr>success = True, inserted = False, eventId = Some (JStr ''e1''),
          duplicate = Some True\<rparr> \<and>
   collection (snd (writeEvent sampleEnv defaultConfig (sampleEvent ''e1'')
          (snd (writeEvent sampleEnv defaultConfig (sampleEvent ''e1'') newWorld)))) =
     [(Some (JStr ''e1''), sampleEvent ''e1'')]"
proof -
  have hyps: "documentId (sampleEvent ''e1'') \<notin> set (map fst (collection newWorld))"
    "fst (canExecute defaultConfig (clock sampleEnv (nowCalls newWorld)) (writer newWorld))"
    "updateOneFault sampleEnv (updateOneCalls newWorld) = None"
    "updateOneFault sampleEnv (Suc (updateOneCalls newWorld)) = None"
    by (simp_all add: newWorld_def newWriter_def sampleEnv_def canExecute_def)
  have ids: "getProp (sampleEvent ''e1'') ''id'' = Some (JStr ''e1'')"
    "documentId (sampleEvent ''e1'') = Some (JStr ''e1'')"
    by (simp_all add: documentId_def getProp_def sampleEvent_def)
  have "collection newWorld = []" by (simp add: newWorld_def)
  with writeEvent_twice [OF hyps] hyps show ?thesis
    by (simp add: Let_def ids)
qed

text \<open>
  Claim C3, at a valid record whose id is in no stored document but which has a member
  \<open>_id\<close>. The record \<open>memberIdEvent\<close> has the four required members, the id \<open>e1\<close> and
  the member \<open>_id: x\<close>; the store holds one document, written before for the record
  with id \<open>x\<close>. In \<open>{_id: event.id, ...event}\<close> the member \<open>_id\<close> replaces \<open>event.id\<close>, so
  the filter of the upsert is \<open>{_id: x}\<close>: the first call already returns
  \<open>inserted: false, duplicate: true\<close> for \<open>eventId: e1\<close>, so does the second, the
  collection is unchanged, and it holds no document under \<open>e1\<close>, neither as \<open>_id\<close> nor as
  member \<open>id\<close>.
\<close>

theorem writeEvent_member_id_not_stored:
  "truthy (getProp memberIdEvent ''id'') \<and> truthy (getProp memberIdEvent ''type'') \<and>
   truthy (getProp memberIdEvent ''source'') \<and> truthy (getProp memberIdEvent ''time'') \<and>
   getProp memberIdEvent ''id'' = Some (JStr ''e1'') \<and>
   getProp memberIdEvent ''_id'' = Some (JStr ''x'') \<and>
   collection memberIdWorld = [(Some (JStr ''x''), sampleEvent ''x'')] \<and>
   filter (\<lambda>d. getProp (snd d) ''id'' = Some (JStr ''e1'')) (collection memberIdWorld) = [] \<and>
   fst (writeEvent sampleEnv defaultConfig memberIdEvent memberIdWorld) =
     Inr \<lparr>success = True, inserted = False, eventId = Some (JStr ''e1''),
          duplicate = Some True\<rparr> \<and>
   fst (writeEvent sampleEnv defaultConfig memberIdEvent
          (snd (writeEvent sampleEnv defaultConfig memberIdEvent memberIdWorld))) =
     Inr \<lparr>success = True, inserted = False, eventId = Some (JStr ''e1''),
          duplicate = Some True\<rparr> \<and>
   collection (snd (writeEvent sampleEnv defaultConfig memberIdEvent
          (snd (writeEvent sampleEnv defaultConfig memberIdEvent memberIdWorld)))) =
     [(Some (JStr ''x''), sampleEvent ''x'')] \<and>
   filter (\<lambda>d. fst d = Some (JStr ''e1'') \<or> getProp (snd d) ''id'' = Some (JStr ''e1''))
     (collection (snd (writeEvent sampleEnv defaultConfig memberIdEvent
          (snd (writeEvent sampleEnv defaultConfig memberIdEvent memberIdWorld))))) = []"
proof -
  have members: "getProp memberIdEvent ''id'' = Some (JStr ''e1'')"
    "getProp memberIdEvent ''_id'' = Some (JStr ''x'')"
    "truthy (getProp memberIdEvent ''id'')" "truthy (getProp memberIdEvent ''type'')"
    "truthy (getProp memberIdEvent ''source'')" "truthy (getProp memberIdEvent ''time'')"
    "documentId memberIdEvent = Some (JStr ''x'')"
    by (simp_all add: memberIdEvent_def sampleEvent_def getProp_def documentId_def)
  have c0: "collection memberIdWorld = [(Some (JStr ''x''), sampleEvent ''x'')]"
    by (simp add: memberIdWorld_def newWorld_def writeEvent_defs sampleEnv_def newWriter_def
        canExecute_def documentId_def getProp_def sampleEvent_def split_def Let_def)
  have adm0: "fst (canExecute defaultConfig (clock sampleEnv (nowCalls memberIdWorld))
      (writer memberIdWorld))"
    by (simp add: memberIdWorld_def newWorld_def writeEvent_defs sampleEnv_def newWriter_def
        canExecute_def recordSuccess_def documentId_def getProp_def sampleEvent_def split_def
        Let_def)
  have nofault: "updateOneFault sampleEnv k = None" for k
    by (simp add: sampleEnv_def)
  define w1 where "w1 = snd (writeEvent sampleEnv defaultConfig memberIdEvent memberIdWorld)"
  note first = writeEvent_stored [OF adm0 nofault, of memberIdEvent, folded w1_def]
  have r1: "fst (writeEvent sampleEnv defaultConfig memberIdEvent memberIdWorld) =
      Inr \<lparr>success = True, inserted = False, eventId = Some (JStr ''e1''),
           duplicate = Some True\<rparr>"
    using first(1) by (simp add: members c0)
  have c1: "collection w1 = [(Some (JStr ''x''), sampleEvent ''x'')]"
    using first(2) by (simp add: members c0)
  have adm1: "fst (canExecute defaultConfig (clock sampleEnv (nowCalls w1)) (writer w1))"
    using first(4) by (simp add: canExecute_not_open)
  define w2 where "w2 = snd (writeEvent sampleEnv defaultConfig memberIdEvent w1)"
  note second = writeEvent_stored [OF adm1 nofault, of memberIdEvent, folded w2_def]
  have r2: "fst (writeEvent sampleEnv defaultConfig memberIdEvent w1) =
      Inr \<lparr>success = True, inserted = False, eventId = Some (JStr ''e1''),
           duplicate = Some True\<rparr>"
    using second(1) by (simp add: members c1)
  have c2: "collection w2 = [(Some (JStr ''x''), sampleEvent ''x'')]"
    using second(2) by (simp add: members c1)
  have none: "filter (\<lambda>d. fst d = Some (JStr ''e1'') \<or> getProp (snd d) ''id'' = Some (JStr ''e1''))
     [(Some (JStr ''x''), sampleEvent ''x'')] = []"
    "filter (\<lambda>d. getProp (snd d) ''id'' = Some (JStr ''e1''))
     [(Some (JStr ''x''), sampleEvent ''x'')] = []"
    by (simp_all add: sampleEvent_def getProp_def)
  show ?thesis
    using members r1 r2 c2 none
    unfolding w2_def w1_def c0 by simp
qed

text \<open>
  Claim C8, amended. A call of \<open>writeEvent\<close> that the breaker admits adds one to
  \<open>totalWrites\<close> and one to exactly one of \<open>successfulWrites\<close> (inserted),
  \<open>duplicateWrites\<close> (already there) and \<open>failedWrites\<close> (the store faulted). A call that
  the breaker rejects fails with the circuit-open error and changes no counter.
\<close>

theorem writeEvent_counters:
  "let admitted = fst (canExecute cfg (clock env (nowCalls w)) (writer w));
       res = fst (writeEvent env cfg event w);
       m = metrics (writer w);
       m' = metrics (writer (snd (writeEvent env cfg event w)))
   in (\<not> admitted \<longrightarrow> res = Inl CircuitOpenError \<and> m' = m) \<and>
      (admitted \<longrightarrow>
         totalWrites m' = totalWrites m + 1 \<and> batchWrites m' = batchWrites m \<and>
         (case res of
            Inr r \<Rightarrow>
              if inserted r
              then successfulWrites m' = successfulWrites m + 1 \<and>
                   duplicateWrites m' = duplicateWrites m \<and> failedWrites m' = failedWrites m
              else successfulWrites m' = successfulWrites m \<and>
                   duplicateWrites m' = duplicateWrites m + 1 \<and> failedWrites m' = failedWrites m
          | Inl e \<Rightarrow>
              successfulWrites m' = successfulWrites m \<and>
              duplicateWrites m' = duplicateWrites m \<and> failedWrites m' = failedWrites m + 1))"
proof (cases "fst (canExecute cfg (clock env (nowCalls w)) (writer w))")
  case False
  then show ?thesis by (simp add: writeEvent_rejected Let_def)
next
  case True
  show ?thesis
  proof (cases "updateOneFault env (updateOneCalls w)")
    case None
    from writeEvent_stored(1,5) [OF True None, of event] True show ?thesis
      by (simp add: Let_def)
  next
    case (Some e)
    from writeEvent_faulted(1,2) [OF True Some, of event] True show ?thesis
      by (simp add: Let_def)
  qed
qed

text \<open>A breaker that opened at time 900 rejects a call at time 1000 (the timeout is 30000).\<close>

theorem writeEvent_counters_witness:
  "fst (writeEvent sampleEnv defaultConfig (sampleEvent ''e1'')
          (newWorld\<lparr>writer := newWriter\<lparr>circuitState := OPEN, lastFailureTime := Some 900\<rparr>\<rparr>)) =
     Inl CircuitOpenError \<and>
   metrics (writer (snd (writeEvent sampleEnv defaultConfig (sampleEvent ''e1'')
          (newWorld\<lparr>writer := newWriter\<lparr>circuitState := OPEN, lastFailureTime := Some 900\<rparr>\<rparr>)))) =
     metrics newWriter \<and>
   totalWrites (metrics (writer (snd
     (writeEvent sampleEnv defaultConfig (sampleEvent ''e1'') newWorld)))) = 1 \<and>
   successfulWrites (metrics (writer (snd
     (writeEvent sampleEnv defaultConfig (sampleEvent ''e1'') newWorld)))) = 1 \<and>
   duplicateWrites (metrics (writer (snd
     (writeEvent sampleEnv defaultConfig (sampleEvent ''e1'') newWorld)))) = 0 \<and>
   failedWrites (metrics (writer (snd
     (writeEvent sampleEnv defaultConfig (sampleEvent ''e1'') newWorld)))) = 0"
proof -
  have rejected: "\<not> fst (canExecute defaultConfig
      (clock sampleEnv
        (nowCalls (newWorld\<lparr>writer := newWriter\<lparr>circuitState := OPEN, lastFailureTime := Some 900\<rparr>\<rparr>)))
      (writer (newWorld\<lparr>writer := newWriter\<lparr>circuitState := OPEN, lastFailureTime := Some 900\<rparr>\<rparr>)))"
    by (simp add: canExecute_def newWorld_def sampleEnv_def defaultConfig_def)
  have admitted: "fst (canExecute defaultConfig (clock sampleEnv (nowCalls newWorld)) (writer newWorld))"
    by (simp add: canExecute_def newWorld_def newWriter_def)
  have res: "fst (writeEvent sampleEnv defaultConfig (sampleEvent ''e1'') newWorld) =
     Inr \<lparr>success = True, inserted = True, eventId = Some (JStr ''e1''), duplicate = None\<rparr>"
    using writeEvent_stored(1) [OF admitted, of "sampleEvent ''e1''"]
    by (simp add: sampleEnv_def newWorld_def getProp_def sampleEvent_def)
  have m0: "metrics (writer newWorld) = metrics newWriter"
    "totalWrites (metrics newWriter) = 0" "successfulWrites (metrics newWriter) = 0"
    "duplicateWrites (metrics newWriter) = 0" "failedWrites (metrics newWriter) = 0"
    by (simp_all add: newWorld_def newWriter_def)
  from writeEvent_counters [of defaultConfig sampleEnv
      "newWorld\<lparr>writer := newWriter\<lparr>circuitState := OPEN, lastFailureTime := Some 900\<rparr>\<rparr>"
      "sampleEvent ''e1''"]
    writeEvent_counters [of defaultConfig sampleEnv newWorld "sampleEvent ''e1''"]
  show ?thesis
    using rejected admitted by (simp add: Let_def res m0)
qed

text \<open>
  The claim as stated fails: the rejected call leaves the attempt counter and the failure
  counter where they were.
\<close>

theorem writeEvent_rejected_counterexample:
  "\<not> fst (canExecute defaultConfig 1000 (newWriter\<lparr>circuitState := OPEN, lastFailureTime := Some 900\<rparr>)) \<and>
   fst (writeEvent sampleEnv defaultConfig (sampleEvent ''e1'')
          (newWorld\<lparr>writer := newWriter\<lparr>circuitState := OPEN, lastFailureTime := Some 900\<rparr>\<rparr>)) =
     Inl CircuitOpenError \<and>
   totalWrites (metrics (writer (snd (writeEvent sampleEnv defaultConfig (sampleEvent ''e1'')
          (newWorld\<lparr>writer := newWriter\<lparr>circuitState := OPEN, lastFailureTime := Some 900\<rparr>\<rparr>))))) = 0 \<and>
   failedWrites (metrics (writer (snd (writeEvent sampleEnv defaultConfig (sampleEvent ''e1'')
          (newWorld\<lparr>writer := newWriter\<lparr>circuitState := OPEN, lastFailureTime := Some 900\<rparr>\<rparr>))))) = 0"
proof -
  have rejected: "\<not> fst (canExecute defaultConfig 1000
      (newWriter\<lparr>circuitState := OPEN, lastFailureTime := Some 900\<rparr>))"
    by (simp add: canExecute_def defaultConfig_def)
  have "clock sampleEnv (nowCalls
      (newWorld\<lparr>writer := newWriter\<lparr>circuitState := OPEN, lastFailureTime := Some 900\<rparr>\<rparr>)) = 1000"
    by (simp add: sampleEnv_def newWorld_def)
  with rejected have "\<not> fst (canExecute defaultConfig
      (clock sampleEnv (nowCalls
        (newWorld\<lparr>writer := newWriter\<lparr>circuitState := OPEN, lastFailureTime := Some 900\<rparr>\<rparr>)))
      (writer (newWorld\<lparr>writer := newWriter\<lparr>circuitState := OPEN, lastFailureTime := Some 900\<rparr>\<rparr>)))"
    by simp
  from writeEvent_rejected [OF this] rejected show ?thesis
    by (simp add: newWriter_def)
qed

section \<open>Dead-letter send\<close>

text \<open>
  Claim C9. When the append succeeds, exactly one message is appended to the dead-letter
  topic. It carries the key and the value of the record unchanged; its headers hold the
  error reason, the time of the failure and the original topic under the three
  \<open>x-\<close> names and agree with the record's headers everywhere else. The reason and the
  other metadata are in the headers only.
\<close>

theorem sendToDLQ_message:
  assumes "dlqSendFault env (dlqSendCalls w) = None"
  shows "fst (sendToDLQ env cfg m reason w) = None \<and>
         dlqChannel (snd (sendToDLQ env cfg m reason w)) =
           dlqChannel w @
             [(dlqTopic (kafka cfg), dlqMessageOf cfg m reason (clock env (nowCalls w)))] \<and>
         dlq_value (dlqMessageOf cfg m reason now) = msg_value m \<and>
         dlq_key (dlqMessageOf cfg m reason now) = msg_key m \<and>
         dlq_headers (dlqMessageOf cfg m reason now) ''x-error-reason'' = Some reason \<and>
         dlq_headers (dlqMessageOf cfg m reason now) ''x-failed-timestamp'' = Some (toString now) \<and>
         dlq_headers (dlqMessageOf cfg m reason now) ''x-original-topic'' = Some (topic (kafka cfg)) \<and>
         (\<forall>h. h \<notin> {''x-error-reason'', ''x-failed-timestamp'', ''x-original-topic''} \<longrightarrow>
              dlq_headers (dlqMessageOf cfg m reason now) h = msg_headers m h)"
  using assms by (simp add: sendToDLQ_def dlqMessageOf_def bumpConsumer_def dateNow_def Let_def)

lemma toString_1000: "toString 1000 = ''1000''"
  by (simp add: toString_def natToString.simps)

theorem sendToDLQ_message_witness:
  "dlqSendFault sampleEnv (dlqSendCalls newWorld) = None \<and>
   fst (sendToDLQ sampleEnv defaultConfig (sampleMessage ''{id:}'' 7) ''Invalid message format''
          newWorld) = None \<and>
   map fst (dlqChannel (snd (sendToDLQ sampleEnv defaultConfig (sampleMessage ''{id:}'' 7)
          ''Invalid message format'' newWorld))) = [''events-v1-dlq''] \<and>
   map (dlq_value \<circ> snd) (dlqChannel (snd (sendToDLQ sampleEnv defaultConfig
          (sampleMessage ''{id:}'' 7) ''Invalid message format'' newWorld))) = [Some ''{id:}''] \<and>
   map (\<lambda>d. dlq_headers (snd d) ''x-error-reason'') (dlqChannel (snd (sendToDLQ sampleEnv
          defaultConfig (sampleMessage ''{id:}'' 7) ''Invalid message format'' newWorld))) =
     [Some ''Invalid message format''] \<and>
   map (\<lambda>d. dlq_headers (snd d) ''x-failed-timestamp'') (dlqChannel (snd (sendToDLQ sampleEnv
          defaultConfig (sampleMessage ''{id:}'' 7) ''Invalid message format'' newWorld))) =
     [Some ''1000''] \<and>
   map (\<lambda>d. dlq_headers (snd d) ''x-original-topic'') (dlqChannel (snd (sendToDLQ sampleEnv
          defaultConfig (sampleMessage ''{id:}'' 7) ''Invalid message format'' newWorld))) =
     [Some ''events-v1''] \<and>
   map (\<lambda>d. dlq_headers (snd d) ''trace'') (dlqChannel (snd (sendToDLQ sampleEnv
          defaultConfig (sampleMessage ''{id:}'' 7) ''Invalid message format'' newWorld))) =
     [Some ''abc'']"
proof -
  have h: "dlqSendFault sampleEnv (dlqSendCalls newWorld) = None"
    by (simp add: sampleEnv_def)
  have c: "clock sampleEnv (nowCalls newWorld) = 1000" "dlqChannel newWorld = []"
    by (simp_all add: sampleEnv_def newWorld_def)
  have t: "''trace'' \<notin> {''x-error-reason'', ''x-failed-timestamp'', ''x-original-topic''}"
    by simp
  have v: "msg_value (sampleMessage ''{id:}'' 7) = Some ''{id:}''"
    "msg_headers (sampleMessage ''{id:}'' 7) ''trace'' = Some ''abc''"
    "dlqTopic (kafka defaultConfig) = ''events-v1-dlq''" "topic (kafka defaultConfig) = ''events-v1''"
    by (simp_all add: sampleMessage_def defaultConfig_def)
  from sendToDLQ_message [OF h, of defaultConfig "sampleMessage ''{id:}'' 7"
      "''Invalid message format''" 1000]
  show ?thesis using h t by (simp add: c v toString_1000)
qed

text \<open>
  Claim C10. Every call of \<open>sendToDLQ\<close> adds exactly one to the counter \<open>dlqMessages\<close>,
  whether the append succeeds or not: when the append fails, the error is returned to the
  caller, nothing is appended, and the counter keeps the increment.
\<close>

theorem sendToDLQ_counts:
  "dlqMessages (consumerMetrics (consumer (snd (sendToDLQ env cfg m reason w)))) =
     dlqMessages (consumerMetrics (consumer w)) + 1 \<and>
   (\<forall>e. dlqSendFault env (dlqSendCalls w) = Some e \<longrightarrow>
      fst (sendToDLQ env cfg m reason w) = Some (DeadLetterAppendError e) \<and>
      dlqChannel (snd (sendToDLQ env cfg m reason w)) = dlqChannel w)"
  by (simp add: sendToDLQ_def bumpConsumer_def dateNow_def Let_def split: option.splits)

theorem sendToDLQ_counts_witness:
  "dlqSendFault (sampleEnv\<lparr>dlqSendFault := \<lambda>k. Some ''broker down''\<rparr>) (dlqSendCalls newWorld) =
     Some ''broker down'' \<and>
   fst (sendToDLQ (sampleEnv\<lparr>dlqSendFault := \<lambda>k. Some ''broker down''\<rparr>) defaultConfig
          (sampleMessage ''{id:}'' 7) ''Invalid message format'' newWorld) =
     Some (DeadLetterAppendError ''broker down'') \<and>
   dlqChannel (snd (sendToDLQ (sampleEnv\<lparr>dlqSendFault := \<lambda>k. Some ''broker down''\<rparr>) defaultConfig
          (sampleMessage ''{id:}'' 7) ''Invalid message format'' newWorld)) = [] \<and>
   dlqMessages (consumerMetrics (consumer (snd (sendToDLQ
          (sampleEnv\<lparr>dlqSendFault := \<lambda>k. Some ''broker down''\<rparr>) defaultConfig
          (sampleMessage ''{id:}'' 7) ''Invalid message format'' newWorld)))) = 1"
proof -
  have h: "dlqSendFault (sampleEnv\<lparr>dlqSendFault := \<lambda>k. Some ''broker down''\<rparr>)
      (dlqSendCalls newWorld) = Some ''broker down''"
    by simp
  have z: "dlqMessages (consumerMetrics (consumer newWorld)) = 0" "dlqChannel newWorld = []"
    by (simp_all add: newWorld_def newConsumer_def)
  from sendToDLQ_counts [of "sampleEnv\<lparr>dlqSendFault := \<lambda>k. Some ''broker down''\<rparr>" defaultConfig
      "sampleMessage ''{id:}'' 7" "''Invalid message format''" newWorld]
  show ?thesis using h by (simp add: z)
qed

section \<open>Health of the consumer\<close>

text \<open>
  Claim C6, amended. The status is unhealthy exactly when the consumer is not running.
  A running consumer is degraded exactly when it has a time of a last processed record
  and more than 300000 ms (a constant of the code) have passed since; it is healthy
  otherwise, also when it has not processed any record yet.
\<close>

theorem healthCheck_status:
  "(healthCheck now c = Unhealthy \<longleftrightarrow> \<not> isRunning c) \<and>
   (healthCheck now c = Degraded \<longleftrightarrow>
      isRunning c \<and>
      (\<exists>t. lastProcessedTimestamp (consumerMetrics c) = Some t \<and> t \<noteq> 0 \<and> now - t > 300000)) \<and>
   (healthCheck now c = Healthy \<longleftrightarrow>
      isRunning c \<and>
      \<not> (\<exists>t. lastProcessedTimestamp (consumerMetrics c) = Some t \<and> t \<noteq> 0 \<and> now - t > 300000))"
  by (auto simp: healthCheck_def Let_def split: option.splits)

theorem healthCheck_status_witness:
  "healthCheck 1000000 newConsumer = Unhealthy \<and>
   healthCheck 1000000 (newConsumer\<lparr>isRunning := True,
     consumerMetrics := (consumerMetrics newConsumer)\<lparr>lastProcessedTimestamp := Some 600000\<rparr>\<rparr>) =
     Degraded \<and>
   healthCheck 1000000 (newConsumer\<lparr>isRunning := True,
     consumerMetrics := (consumerMetrics newConsumer)\<lparr>lastProcessedTimestamp := Some 700000\<rparr>\<rparr>) =
     Healthy \<and>
   healthCheck 1000000 (newConsumer\<lparr>isRunning := True\<rparr>) = Healthy"
proof -
  have n: "\<not> isRunning newConsumer"
    "lastProcessedTimestamp (consumerMetrics newConsumer) = None"
    by (simp_all add: newConsumer_def)
  from healthCheck_status [of 1000000 newConsumer]
    healthCheck_status [of 1000000 "newConsumer\<lparr>isRunning := True,
     consumerMetrics := (consumerMetrics newConsumer)\<lparr>lastProcessedTimestamp := Some 600000\<rparr>\<rparr>"]
    healthCheck_status [of 1000000 "newConsumer\<lparr>isRunning := True,
     consumerMetrics := (consumerMetrics newConsumer)\<lparr>lastProcessedTimestamp := Some 700000\<rparr>\<rparr>"]
    healthCheck_status [of 1000000 "newConsumer\<lparr>isRunning := True\<rparr>"]
  show ?thesis using n by simp
qed

text \<open>
  The claim as stated fails: a running consumer that has never processed a record has
  processed none within the last five minutes, and its status is healthy.
\<close>

theorem healthCheck_never_processed_counterexample:
  "isRunning (newConsumer\<lparr>isRunning := True\<rparr>) \<and>
   noneProcessedWithin 300000 1000000 (newConsumer\<lparr>isRunning := True\<rparr>) \<and>
   healthCheck 1000000 (newConsumer\<lparr>isRunning := True\<rparr>) = Healthy \<and>
   healthCheck 1000000 (newConsumer\<lparr>isRunning := True\<rparr>) \<noteq> Degraded"
  by (simp add: healthCheck_def noneProcessedWithin_def newConsumer_def)

section \<open>Retrying a write\<close>

lemma writeEventWithRetry_returns:
  assumes "\<not> attemptFails env cfg event w 0"
  shows "writeEventWithRetry env cfg event attempt w = writeEvent env cfg event w"
proof -
  obtain r w1 where "writeEvent env cfg event w = (r, w1)"
    by (cases "writeEvent env cfg event w")
  with assms show ?thesis
    by (cases r) (simp_all add: attemptFails_def attemptWorld_def writeEventWithRetry.simps)
qed

lemma writeEventWithRetry_gives_up:
  assumes "attemptFails env cfg event w 0" and "maxAttempts (retry cfg) \<le> int attempt"
  shows "writeEventWithRetry env cfg event attempt w = writeEvent env cfg event w"
proof -
  obtain r w1 where "writeEvent env cfg event w = (r, w1)"
    by (cases "writeEvent env cfg event w")
  with assms show ?thesis
    by (cases r) (simp_all add: attemptFails_def attemptWorld_def writeEventWithRetry.simps)
qed

lemma writeEventWithRetry_again:
  assumes "attemptFails env cfg event w 0" and "int attempt < maxAttempts (retry cfg)"
  shows "writeEventWithRetry env cfg event attempt w =
         writeEventWithRetry env cfg event (Suc attempt)
           (sleep (retryDelay cfg attempt) (snd (writeEvent env cfg event w)))"
proof -
  obtain r w1 where "writeEvent env cfg event w = (r, w1)"
    by (cases "writeEvent env cfg event w")
  with assms show ?thesis
    by (cases r) (simp_all add: attemptFails_def attemptWorld_def writeEventWithRetry.simps)
qed

lemma attemptWorld_Suc:
  "attemptWorld env cfg event (Suc k) w =
   attemptWorld env cfg event k (snd (writeEvent env cfg event w))"
  unfolding attemptWorld_def by (simp only: funpow_Suc_right o_apply)

lemma attemptWorld_sleeps:
  "attemptWorld env cfg event k (w\<lparr>sleeps := s\<rparr>) = (attemptWorld env cfg event k w)\<lparr>sleeps := s\<rparr>"
  by (induction k) (simp_all add: attemptWorld_def writeEvent_sleeps)

lemma attemptFails_sleeps:
  "attemptFails env cfg event (w\<lparr>sleeps := s\<rparr>) k = attemptFails env cfg event w k"
  by (simp add: attemptFails_def attemptWorld_sleeps writeEvent_sleeps)

lemma attemptFails_Suc:
  "attemptFails env cfg event w (Suc k) =
   attemptFails env cfg event (snd (writeEvent env cfg event w)) k"
  by (simp add: attemptFails_def attemptWorld_Suc)

lemma attemptWorld_frame:
  "writeEventCalls (attemptWorld env cfg event k w) = writeEventCalls w + k"
  "sleeps (attemptWorld env cfg event k w) = sleeps w"
  by (induction k) (simp_all add: attemptWorld_def writeEvent_frame)

text \<open>
  While the attempts fail and the limit is not reached, the retry goes on: after \<open>n\<close>
  failed attempts it stands at attempt \<open>attempt + n\<close>, having waited once per failure.
\<close>

lemma writeEventWithRetry_unfold:
  assumes "\<forall>k<n. attemptFails env cfg event w k"
    and "n = 0 \<or> int attempt + int n \<le> maxAttempts (retry cfg)"
  shows "writeEventWithRetry env cfg event attempt w =
         writeEventWithRetry env cfg event (attempt + n)
           ((attemptWorld env cfg event n w)
              \<lparr>sleeps := sleeps w @ map (retryDelay cfg) [attempt..<attempt + n]\<rparr>)"
  using assms
proof (induction n arbitrary: attempt w)
  case 0
  then show ?case by (simp add: attemptWorld_def)
next
  case (Suc n)
  define w1 where "w1 = snd (writeEvent env cfg event w)"
  define w2 where "w2 = sleep (retryDelay cfg attempt) w1"
  have w2: "w2 = w1\<lparr>sleeps := sleeps w @ [retryDelay cfg attempt]\<rparr>"
    by (simp add: w2_def sleep_def w1_def writeEvent_frame)
  have first: "attemptFails env cfg event w 0" using Suc.prems(1) by simp
  have lim: "int attempt < maxAttempts (retry cfg)" using Suc.prems(2) by simp
  have rest: "\<forall>k<n. attemptFails env cfg event w2 k"
    using Suc.prems(1) by (simp add: w2 attemptFails_sleeps w1_def attemptFails_Suc [symmetric])
  have lim': "n = 0 \<or> int (Suc attempt) + int n \<le> maxAttempts (retry cfg)"
    using Suc.prems(2) by simp
  have "writeEventWithRetry env cfg event attempt w = writeEventWithRetry env cfg event (Suc attempt) w2"
    using writeEventWithRetry_again [OF first lim] by (simp add: w2_def w1_def)
  also have "\<dots> = writeEventWithRetry env cfg event (Suc attempt + n)
           ((attemptWorld env cfg event n w2)
              \<lparr>sleeps := sleeps w2 @ map (retryDelay cfg) [Suc attempt..<Suc attempt + n]\<rparr>)"
    by (rule Suc.IH [OF rest lim'])
  also have "(attemptWorld env cfg event n w2)
              \<lparr>sleeps := sleeps w2 @ map (retryDelay cfg) [Suc attempt..<Suc attempt + n]\<rparr> =
        (attemptWorld env cfg event (Suc n) w)
              \<lparr>sleeps := sleeps w @
                 retryDelay cfg attempt # map (retryDelay cfg) [Suc attempt..<Suc attempt + n]\<rparr>"
    by (simp add: w2 attemptWorld_sleeps attemptWorld_Suc w1_def)
  finally have main: "writeEventWithRetry env cfg event attempt w =
      writeEventWithRetry env cfg event (Suc attempt + n)
        ((attemptWorld env cfg event (Suc n) w)
              \<lparr>sleeps := sleeps w @
                 retryDelay cfg attempt # map (retryDelay cfg) [Suc attempt..<Suc attempt + n]\<rparr>)" .
  have e: "map (retryDelay cfg) [attempt..<attempt + Suc n] =
      retryDelay cfg attempt # map (retryDelay cfg) [Suc attempt..<Suc attempt + n]"
    by (subst upt_rec) simp
  show ?case unfolding e using main by simp
qed

lemma attemptFails_attemptWorld:
  "attemptFails env cfg event (attemptWorld env cfg event n w) 0 = attemptFails env cfg event w n"
  by (simp add: attemptFails_def attemptWorld_def)

text \<open>Where the retry stands after \<open>n\<close> failed attempts, it makes one more attempt and returns.\<close>

lemma writeEventWithRetry_last:
  assumes "\<forall>k<n. attemptFails env cfg event w k"
    and "n = 0 \<or> int n < maxAttempts (retry cfg)"
    and "attemptFails env cfg event w n \<longrightarrow> maxAttempts (retry cfg) \<le> int n + 1"
  shows "writeEventWithRetry env cfg event 1 w =
         (fst (writeEvent env cfg event (attemptWorld env cfg event n w)),
          (attemptWorld env cfg event (Suc n) w)
            \<lparr>sleeps := sleeps w @ map (retryDelay cfg) [1..<Suc n]\<rparr>)"
proof -
  define v where "v = (attemptWorld env cfg event n w)
      \<lparr>sleeps := sleeps w @ map (retryDelay cfg) [1..<Suc n]\<rparr>"
  have lim: "n = 0 \<or> int 1 + int n \<le> maxAttempts (retry cfg)"
    using assms(2) by auto
  have "writeEventWithRetry env cfg event 1 w = writeEventWithRetry env cfg event (1 + n) v"
    using writeEventWithRetry_unfold [OF assms(1) lim] by (simp add: v_def)
  also have "\<dots> = writeEvent env cfg event v"
  proof (cases "attemptFails env cfg event w n")
    case True
    then have "attemptFails env cfg event v 0"
      by (simp add: v_def attemptFails_sleeps attemptFails_attemptWorld)
    moreover have "maxAttempts (retry cfg) \<le> int (1 + n)"
      using True assms(3) by simp
    ultimately show ?thesis by (rule writeEventWithRetry_gives_up)
  next
    case False
    then have "\<not> attemptFails env cfg event v 0"
      by (simp add: v_def attemptFails_sleeps attemptFails_attemptWorld)
    then show ?thesis by (rule writeEventWithRetry_returns)
  qed
  also have "\<dots> = (fst (writeEvent env cfg event (attemptWorld env cfg event n w)),
          (attemptWorld env cfg event (Suc n) w)
            \<lparr>sleeps := sleeps w @ map (retryDelay cfg) [1..<Suc n]\<rparr>)"
    by (simp add: v_def writeEvent_sleeps attemptWorld_def)
  finally show ?thesis .
qed

text \<open>
  Claim C4. Let the first \<open>n\<close> attempts of the write fail. If attempt \<open>n + 1\<close> succeeds
  and \<open>n < maxAttempts\<close>, the retry returns the result of that attempt; if attempt \<open>n + 1\<close>
  fails and is the last one allowed (\<open>n + 1\<close> is \<open>maxAttempts\<close>, or 1 when \<open>maxAttempts\<close> is
  smaller), the retry returns the error of that attempt as it is. In both cases
  \<open>writeEvent\<close> has been called \<open>n + 1\<close> times, and after each failing attempt \<open>k\<close> up to
  \<open>n\<close> the retry has waited \<open>min (initialDelay * backoffMultiplier ^ (k - 1)) maxDelay\<close>.
\<close>

theorem writeEventWithRetry_attempts:
  assumes "\<forall>k<n. attemptFails env cfg event w k"
  shows "(\<not> attemptFails env cfg event w n \<and> int n < maxAttempts (retry cfg) \<longrightarrow>
            (\<exists>r. fst (writeEventWithRetry env cfg event 1 w) = Inr r \<and>
                 fst (writeEvent env cfg event (attemptWorld env cfg event n w)) = Inr r)) \<and>
         (attemptFails env cfg event w n \<and> int n + 1 = max 1 (maxAttempts (retry cfg)) \<longrightarrow>
            (\<exists>e. fst (writeEventWithRetry env cfg event 1 w) = Inl e \<and>
                 fst (writeEvent env cfg event (attemptWorld env cfg event n w)) = Inl e)) \<and>
         ((\<not> attemptFails env cfg event w n \<and> int n < maxAttempts (retry cfg)) \<or>
          (attemptFails env cfg event w n \<and> int n + 1 = max 1 (maxAttempts (retry cfg))) \<longrightarrow>
            writeEventCalls (snd (writeEventWithRetry env cfg event 1 w)) =
              writeEventCalls w + n + 1 \<and>
            sleeps (snd (writeEventWithRetry env cfg event 1 w)) =
              sleeps w @
              map (\<lambda>k. min (real_of_int (initialDelay (retry cfg)) *
                            backoffMultiplier (retry cfg) ^ (k - 1))
                         (real_of_int (maxDelay (retry cfg))))
                [1..<Suc n])"
proof -
  have run: "writeEventWithRetry env cfg event 1 w =
         (fst (writeEvent env cfg event (attemptWorld env cfg event n w)),
          (attemptWorld env cfg event (Suc n) w)
            \<lparr>sleeps := sleeps w @ map (retryDelay cfg) [1..<Suc n]\<rparr>)"
    if "(\<not> attemptFails env cfg event w n \<and> int n < maxAttempts (retry cfg)) \<or>
        (attemptFails env cfg event w n \<and> int n + 1 = max 1 (maxAttempts (retry cfg)))"
  proof (rule writeEventWithRetry_last [OF assms])
    show "n = 0 \<or> int n < maxAttempts (retry cfg)" using that by auto
    show "attemptFails env cfg event w n \<longrightarrow> maxAttempts (retry cfg) \<le> int n + 1"
      using that by auto
  qed
  have delays: "map (retryDelay cfg) [1..<Suc n] =
      map (\<lambda>k. min (real_of_int (initialDelay (retry cfg)) *
                            backoffMultiplier (retry cfg) ^ (k - 1))
                         (real_of_int (maxDelay (retry cfg)))) [1..<Suc n]"
    by (simp add: retryDelay_def)
  have ok: "\<exists>r. fst (writeEventWithRetry env cfg event 1 w) = Inr r \<and>
                 fst (writeEvent env cfg event (attemptWorld env cfg event n w)) = Inr r"
    if "\<not> attemptFails env cfg event w n" "int n < maxAttempts (retry cfg)"
  proof (cases "fst (writeEvent env cfg event (attemptWorld env cfg event n w))")
    case (Inl e)
    with that(1) show ?thesis by (simp add: attemptFails_def)
  next
    case (Inr r)
    with run that show ?thesis by simp
  qed
  have bad: "\<exists>e. fst (writeEventWithRetry env cfg event 1 w) = Inl e \<and>
                 fst (writeEvent env cfg event (attemptWorld env cfg event n w)) = Inl e"
    if "attemptFails env cfg event w n" "int n + 1 = max 1 (maxAttempts (retry cfg))"
  proof (cases "fst (writeEvent env cfg event (attemptWorld env cfg event n w))")
    case (Inl e)
    with run that show ?thesis by simp
  next
    case (Inr r)
    with that(1) show ?thesis by (simp add: attemptFails_def)
  qed
  have post: "writeEventCalls (snd (writeEventWithRetry env cfg event 1 w)) =
              writeEventCalls w + n + 1 \<and>
            sleeps (snd (writeEventWithRetry env cfg event 1 w)) =
              sleeps w @ map (retryDelay cfg) [1..<Suc n]"
    if "(\<not> attemptFails env cfg event w n \<and> int n < maxAttempts (retry cfg)) \<or>
        (attemptFails env cfg event w n \<and> int n + 1 = max 1 (maxAttempts (retry cfg)))"
    using run [OF that] by (simp add: attemptWorld_frame)
  show ?thesis
    unfolding delays [symmetric] using ok bad post by blast
qed

text \<open>Evaluation of the sample inputs.\<close>

lemmas sample_defs =
  newWorld_def newWriter_def newConsumer_def sampleEnv_def flakyEnv_def defaultConfig_def
  sampleEvent_def documentId_def getProp_def

lemmas writeEvent_eval =
  writeEvent_defs canExecute_def recordFailure_def recordSuccess_def split_def

theorem writeEventWithRetry_attempts_witness:
  "attemptFails (flakyEnv 2) defaultConfig (sampleEvent ''e1'') newWorld 0 \<and>
   attemptFails (flakyEnv 2) defaultConfig (sampleEvent ''e1'') newWorld 1 \<and>
   \<not> attemptFails (flakyEnv 2) defaultConfig (sampleEvent ''e1'') newWorld 2 \<and>
   int 2 < maxAttempts (retry defaultConfig) \<and>
   fst (writeEventWithRetry (flakyEnv 2) defaultConfig (sampleEvent ''e1'') 1 newWorld) =
     Inr \<lparr>success = True, inserted = True, eventId = Some (JStr ''e1''), duplicate = None\<rparr> \<and>
   writeEventCalls (snd (writeEventWithRetry (flakyEnv 2) defaultConfig (sampleEvent ''e1'') 1
     newWorld)) = 3 \<and>
   sleeps (snd (writeEventWithRetry (flakyEnv 2) defaultConfig (sampleEvent ''e1'') 1 newWorld)) =
     [1000, 2000] \<and>
   attemptFails (flakyEnv 3) defaultConfig (sampleEvent ''e1'') newWorld 2 \<and>
   int 2 + 1 = max 1 (maxAttempts (retry defaultConfig)) \<and>
   fst (writeEventWithRetry (flakyEnv 3) defaultConfig (sampleEvent ''e1'') 1 newWorld) =
     Inl (StoreError ''timeout'') \<and>
   writeEventCalls (snd (writeEventWithRetry (flakyEnv 3) defaultConfig (sampleEvent ''e1'') 1
     newWorld)) = 3 \<and>
   sleeps (snd (writeEventWithRetry (flakyEnv 3) defaultConfig (sampleEvent ''e1'') 1 newWorld)) =
     [1000, 2000]"
proof -
  have two: "(2::nat) = Suc (Suc 0)" by simp
  have f0: "attemptFails (flakyEnv 2) defaultConfig (sampleEvent ''e1'') newWorld 0"
    by (simp add: attemptFails_def attemptWorld_def writeEvent_eval sample_defs)
  have f1: "attemptFails (flakyEnv 2) defaultConfig (sampleEvent ''e1'') newWorld 1"
    by (simp add: attemptFails_def attemptWorld_def writeEvent_eval sample_defs)
  have r2: "fst (writeEvent (flakyEnv 2) defaultConfig (sampleEvent ''e1'')
      (attemptWorld (flakyEnv 2) defaultConfig (sampleEvent ''e1'') 2 newWorld)) =
     Inr \<lparr>success = True, inserted = True, eventId = Some (JStr ''e1''), duplicate = None\<rparr>"
    unfolding two
    by (simp add: attemptWorld_def writeEvent_eval sample_defs)
  then have f2: "\<not> attemptFails (flakyEnv 2) defaultConfig (sampleEvent ''e1'') newWorld 2"
    by (simp add: attemptFails_def)
  have g0: "attemptFails (flakyEnv 3) defaultConfig (sampleEvent ''e1'') newWorld 0"
    by (simp add: attemptFails_def attemptWorld_def writeEvent_eval sample_defs)
  have g1: "attemptFails (flakyEnv 3) defaultConfig (sampleEvent ''e1'') newWorld 1"
    by (simp add: attemptFails_def attemptWorld_def writeEvent_eval sample_defs)
  have s2: "fst (writeEvent (flakyEnv 3) defaultConfig (sampleEvent ''e1'')
      (attemptWorld (flakyEnv 3) defaultConfig (sampleEvent ''e1'') 2 newWorld)) =
     Inl (StoreError ''timeout'')"
    unfolding two
    by (simp add: attemptWorld_def writeEvent_eval sample_defs)
  then have g2: "attemptFails (flakyEnv 3) defaultConfig (sampleEvent ''e1'') newWorld 2"
    by (simp add: attemptFails_def)
  have fs: "\<forall>k<2. attemptFails (flakyEnv 2) defaultConfig (sampleEvent ''e1'') newWorld k"
    using f0 f1 by (auto simp: less_Suc_eq two)
  have gs: "\<forall>k<2. attemptFails (flakyEnv 3) defaultConfig (sampleEvent ''e1'') newWorld k"
    using g0 g1 by (auto simp: less_Suc_eq two)
  have cfg: "maxAttempts (retry defaultConfig) = 3" "initialDelay (retry defaultConfig) = 1000"
    "maxDelay (retry defaultConfig) = 30000" "backoffMultiplier (retry defaultConfig) = 2"
    by (simp_all add: defaultConfig_def)
  have w0: "writeEventCalls newWorld = 0" "sleeps newWorld = []"
    by (simp_all add: newWorld_def)
  from writeEventWithRetry_attempts [OF fs] writeEventWithRetry_attempts [OF gs]
  show ?thesis
    using f0 f1 f2 g2 r2 s2 by (simp add: cfg w0 upt_rec)
qed

section \<open>Processing a batch\<close>

text \<open>What the dead-letter send, the offset resolution and the metric updates leave alone.\<close>

lemma sendToDLQ_frame:
  "writer (snd (sendToDLQ env cfg m reason w)) = writer w"
  "collection (snd (sendToDLQ env cfg m reason w)) = collection w"
  "writeEventCalls (snd (sendToDLQ env cfg m reason w)) = writeEventCalls w"
  "updateOneCalls (snd (sendToDLQ env cfg m reason w)) = updateOneCalls w"
  "resolvedOffsets (snd (sendToDLQ env cfg m reason w)) = resolvedOffsets w"
  "dlqSendCalls (snd (sendToDLQ env cfg m reason w)) = Suc (dlqSendCalls w)"
  by (simp_all add: sendToDLQ_def bumpConsumer_def dateNow_def Let_def split: option.splits)

lemma sendToDLQ_appended:
  assumes "dlqSendFault env (dlqSendCalls w) = None"
  shows "fst (sendToDLQ env cfg m reason w) = None"
    and "dlqChannel (snd (sendToDLQ env cfg m reason w)) =
           dlqChannel w @
             [(dlqTopic (kafka cfg), dlqMessageOf cfg m reason (clock env (nowCalls w)))]"
    and "messagesFailed (consumerMetrics (consumer (snd (sendToDLQ env cfg m reason w)))) =
           messagesFailed (consumerMetrics (consumer w))"
  using assms by (simp_all add: sendToDLQ_def bumpConsumer_def dateNow_def Let_def)

lemma sendToDLQ_refused:
  assumes "dlqSendFault env (dlqSendCalls w) = Some e"
  shows "fst (sendToDLQ env cfg m reason w) = Some (DeadLetterAppendError e)"
    and "dlqChannel (snd (sendToDLQ env cfg m reason w)) = dlqChannel w"
  using assms by (simp_all add: sendToDLQ_def bumpConsumer_def dateNow_def Let_def)

lemma bumpConsumer_frame:
  "writer (bumpConsumer f w) = writer w"
  "collection (bumpConsumer f w) = collection w"
  "writeEventCalls (bumpConsumer f w) = writeEventCalls w"
  "updateOneCalls (bumpConsumer f w) = updateOneCalls w"
  "resolvedOffsets (bumpConsumer f w) = resolvedOffsets w"
  "dlqChannel (bumpConsumer f w) = dlqChannel w"
  "dlqSendCalls (bumpConsumer f w) = dlqSendCalls w"
  "nowCalls (bumpConsumer f w) = nowCalls w"
  by (simp_all add: bumpConsumer_def)

lemma resolveOffset_frame:
  "writer (resolveOffset off w) = writer w"
  "collection (resolveOffset off w) = collection w"
  "writeEventCalls (resolveOffset off w) = writeEventCalls w"
  "updateOneCalls (resolveOffset off w) = updateOneCalls w"
  "resolvedOffsets (resolveOffset off w) = resolvedOffsets w @ [off]"
  "dlqChannel (resolveOffset off w) = dlqChannel w"
  "consumer (resolveOffset off w) = consumer w"
  by (simp_all add: resolveOffset_def)

lemma shutdownDetected_frame:
  "writer (snd (shutdownDetected env w)) = writer w"
  "collection (snd (shutdownDetected env w)) = collection w"
  "resolvedOffsets (snd (shutdownDetected env w)) = resolvedOffsets w"
  "dlqChannel (snd (shutdownDetected env w)) = dlqChannel w"
  "dlqSendCalls (snd (shutdownDetected env w)) = dlqSendCalls w"
  "nowCalls (snd (shutdownDetected env w)) = nowCalls w"
  by (simp_all add: shutdownDetected_def)

text \<open>The loop body on a record that does not parse: the \<open>try\<close> block, then the \<open>catch\<close>.\<close>

lemma invalid_record_try:
  assumes "parseMessage env m = None"
  shows "processMessageTry env cfg m w =
     (case fst (sendToDLQ env cfg m ''Invalid message format'' w) of
        Some e \<Rightarrow> (Some e, snd (sendToDLQ env cfg m ''Invalid message format'' w))
      | None \<Rightarrow>
          (None, resolveOffset (msg_offset m)
                   (snd (sendToDLQ env cfg m ''Invalid message format'' w))))"
  using assms by (simp add: processMessageTry_def split: prod.splits option.splits)

lemma processMessage_catch:
  "processMessage env cfg m w =
     (case fst (processMessageTry env cfg m w) of
        None \<Rightarrow> (None, snd (processMessageTry env cfg m w))
      | Some e \<Rightarrow>
          (let w2 = snd (sendToDLQ env cfg m (message e)
                 (bumpConsumer (\<lambda>c. c\<lparr>messagesFailed := messagesFailed c + 1\<rparr>)
                    (snd (processMessageTry env cfg m w))))
           in case fst (sendToDLQ env cfg m (message e)
                 (bumpConsumer (\<lambda>c. c\<lparr>messagesFailed := messagesFailed c + 1\<rparr>)
                    (snd (processMessageTry env cfg m w)))) of
                None \<Rightarrow> (None, resolveOffset (msg_offset m) w2)
              | Some dlqError \<Rightarrow> (Some dlqError, w2)))"
  by (simp add: processMessage_def Let_def split: prod.splits option.splits)

lemma invalid_record_skips_writer:
  assumes "parseMessage env m = None"
  shows "writer (snd (processMessage env cfg m w)) = writer w"
    and "collection (snd (processMessage env cfg m w)) = collection w"
    and "writeEventCalls (snd (processMessage env cfg m w)) = writeEventCalls w"
    and "updateOneCalls (snd (processMessage env cfg m w)) = updateOneCalls w"
  by (simp_all add: processMessage_catch invalid_record_try [OF assms] Let_def
      sendToDLQ_frame bumpConsumer_frame resolveOffset_frame split: option.splits)

lemma invalid_record_routed:
  assumes "parseMessage env m = None" and "dlqSendFault env (dlqSendCalls w) = None"
  shows "processMessage env cfg m w =
           (None, resolveOffset (msg_offset m)
                    (snd (sendToDLQ env cfg m ''Invalid message format'' w)))"
  by (simp add: processMessage_catch invalid_record_try [OF assms(1)]
      sendToDLQ_appended(1) [OF assms(2)])

text \<open>A record with one of the four members missing or empty does not parse.\<close>

lemma parseMessage_missing_member:
  assumes "msg_value m = Some bytes" and "jsonParse env bytes = Some (JObj members)"
    and "name \<in> {''id'', ''type'', ''source'', ''time''}"
    and "getProp members name = None \<or> getProp members name = Some (JStr [])"
  shows "parseMessage env m = None"
  using assms by (auto simp: parseMessage_def)

text \<open>
  Claim C5, amended. For a record that does not parse to an event with the four required
  members (\<open>parseMessage\<close> gives nothing), the loop body never calls the writer: the
  writer's state, the collection and the numbers of calls of \<open>writeEvent\<close> and of the
  store stay as they were. When the dead-letter append succeeds, the record is appended to
  the dead-letter topic with the reason \<open>Invalid message format\<close>, its offset is resolved,
  it is not counted as failed, and, unless shutdown was detected before the record, the
  loop goes on with the remaining records.
\<close>

theorem processMessage_invalid:
  assumes "parseMessage env m = None"
  shows "writer (snd (processMessage env cfg m w)) = writer w \<and>
         collection (snd (processMessage env cfg m w)) = collection w \<and>
         writeEventCalls (snd (processMessage env cfg m w)) = writeEventCalls w \<and>
         updateOneCalls (snd (processMessage env cfg m w)) = updateOneCalls w \<and>
         (dlqSendFault env (dlqSendCalls w) = None \<longrightarrow>
            fst (processMessage env cfg m w) = None \<and>
            dlqChannel (snd (processMessage env cfg m w)) =
              dlqChannel w @
                [(dlqTopic (kafka cfg),
                  dlqMessageOf cfg m ''Invalid message format'' (clock env (nowCalls w)))] \<and>
            resolvedOffsets (snd (processMessage env cfg m w)) =
              resolvedOffsets w @ [msg_offset m] \<and>
            messagesFailed (consumerMetrics (consumer (snd (processMessage env cfg m w)))) =
              messagesFailed (consumerMetrics (consumer w)) \<and>
            (\<not> fst (shutdownDetected env w) \<longrightarrow>
               processMessages env cfg (m # ms) w =
               processMessages env cfg ms
                 (snd (processMessage env cfg m (snd (shutdownDetected env w))))))"
proof -
  have routed: "fst (processMessage env cfg m w) = None \<and>
            dlqChannel (snd (processMessage env cfg m w)) =
              dlqChannel w @
                [(dlqTopic (kafka cfg),
                  dlqMessageOf cfg m ''Invalid message format'' (clock env (nowCalls w)))] \<and>
            resolvedOffsets (snd (processMessage env cfg m w)) =
              resolvedOffsets w @ [msg_offset m] \<and>
            messagesFailed (consumerMetrics (consumer (snd (processMessage env cfg m w)))) =
              messagesFailed (consumerMetrics (consumer w))"
    if ok: "dlqSendFault env (dlqSendCalls w) = None"
    by (simp add: invalid_record_routed [OF assms ok] resolveOffset_frame
        sendToDLQ_frame sendToDLQ_appended [OF ok])
  have goes_on: "processMessages env cfg (m # ms) w =
               processMessages env cfg ms
                 (snd (processMessage env cfg m (snd (shutdownDetected env w))))"
    if ok: "dlqSendFault env (dlqSendCalls w) = None" and run: "\<not> fst (shutdownDetected env w)"
  proof -
    have "dlqSendFault env (dlqSendCalls (snd (shutdownDetected env w))) = None"
      using ok by (simp add: shutdownDetected_frame)
    from invalid_record_routed [OF assms this, of cfg] run show ?thesis
      by (simp add: split_def)
  qed
  show ?thesis
    using invalid_record_skips_writer [OF assms, of cfg w] routed goes_on by blast
qed

lemma writeEvent_frame_calls:
  "heartbeatCalls (snd (writeEvent env cfg event w)) = heartbeatCalls w"
  "runningChecks (snd (writeEvent env cfg event w)) = runningChecks w"
  "dlqSendCalls (snd (writeEvent env cfg event w)) = dlqSendCalls w"
  by (simp_all add: writeEvent_defs split_def split: option.splits)

text \<open>The loop body on a record that parses, with a store and a heartbeat that answer.\<close>

lemma processMessage_stored:
  assumes "parseMessage env m = Some event"
    and "fst (canExecute cfg (clock env (nowCalls w)) (writer w))"
    and "updateOneFault env (updateOneCalls w) = None"
    and "heartbeatFault env (heartbeatCalls w) = None"
  shows "fst (processMessage env cfg m w) = None"
    and "resolvedOffsets (snd (processMessage env cfg m w)) = resolvedOffsets w @ [msg_offset m]"
    and "collection (snd (processMessage env cfg m w)) =
           (if documentId event \<in> set (map fst (collection w)) then collection w
            else collection w @ [(documentId event, event)])"
    and "dlqChannel (snd (processMessage env cfg m w)) = dlqChannel w"
    and "runningChecks (snd (processMessage env cfg m w)) = runningChecks w"
    and "updateOneCalls (snd (processMessage env cfg m w)) = Suc (updateOneCalls w)"
    and "heartbeatCalls (snd (processMessage env cfg m w)) = Suc (heartbeatCalls w)"
    and "dlqSendCalls (snd (processMessage env cfg m w)) = dlqSendCalls w"
    and "circuitState (writer (snd (processMessage env cfg m w))) \<noteq> OPEN"
proof -
  note st = writeEvent_stored [OF assms(2,3), of event]
  have "\<not> attemptFails env cfg event w 0"
    by (simp add: attemptFails_def attemptWorld_def st(1))
  then have retry: "writeEventWithRetry env cfg event attempt w = writeEvent env cfg event w"
    for attempt
    by (rule writeEventWithRetry_returns)
  obtain r w1 where we: "writeEvent env cfg event w = (Inr r, w1)" and r: "success r"
    using st(1) by (cases "writeEvent env cfg event w") auto
  have w1: "w1 = snd (writeEvent env cfg event w)" by (simp add: we)
  have hb: "heartbeatFault env (heartbeatCalls w1) = None"
    by (simp add: w1 writeEvent_frame_calls assms(4))
  have body: "processMessageTry env cfg m w =
      heartbeat env (resolveOffset (msg_offset m)
        (bumpConsumer (\<lambda>c. c\<lparr>lastProcessedTimestamp := Some (clock env (nowCalls w1))\<rparr>)
          ((bumpConsumer (\<lambda>c. c\<lparr>messagesProcessed := messagesProcessed c + 1\<rparr>) w1)
             \<lparr>nowCalls := Suc (nowCalls w1)\<rparr>)))"
    by (simp add: processMessageTry_def assms(1) retry we r dateNow_def bumpConsumer_def)
  have body_ok: "fst (processMessageTry env cfg m w) = None"
    using hb by (simp add: body heartbeat_def resolveOffset_def bumpConsumer_def)
  have pm: "processMessage env cfg m w = (None, snd (processMessageTry env cfg m w))"
    by (simp add: processMessage_catch body_ok)
  show "fst (processMessage env cfg m w) = None" by (simp add: pm)
  show "resolvedOffsets (snd (processMessage env cfg m w)) = resolvedOffsets w @ [msg_offset m]"
    by (simp add: pm body heartbeat_def resolveOffset_def bumpConsumer_def w1 writeEvent_frame)
  show "collection (snd (processMessage env cfg m w)) =
           (if documentId event \<in> set (map fst (collection w)) then collection w
            else collection w @ [(documentId event, event)])"
    using st(2) by (simp add: pm body heartbeat_def resolveOffset_def bumpConsumer_def w1)
  show "dlqChannel (snd (processMessage env cfg m w)) = dlqChannel w"
    by (simp add: pm body heartbeat_def resolveOffset_def bumpConsumer_def w1 writeEvent_frame)
  show "runningChecks (snd (processMessage env cfg m w)) = runningChecks w"
    by (simp add: pm body heartbeat_def resolveOffset_def bumpConsumer_def w1 writeEvent_frame_calls)
  show "updateOneCalls (snd (processMessage env cfg m w)) = Suc (updateOneCalls w)"
    using st(3) by (simp add: pm body heartbeat_def resolveOffset_def bumpConsumer_def w1)
  show "heartbeatCalls (snd (processMessage env cfg m w)) = Suc (heartbeatCalls w)"
    by (simp add: pm body heartbeat_def resolveOffset_def bumpConsumer_def w1 writeEvent_frame_calls)
  show "dlqSendCalls (snd (processMessage env cfg m w)) = dlqSendCalls w"
    by (simp add: pm body heartbeat_def resolveOffset_def bumpConsumer_def w1 writeEvent_frame_calls)
  show "circuitState (writer (snd (processMessage env cfg m w))) \<noteq> OPEN"
    using st(4) by (simp add: pm body heartbeat_def resolveOffset_def bumpConsumer_def w1)
qed

text \<open>One round of the loop: stop on shutdown, go on after a handled record, throw otherwise.\<close>

lemma processMessages_stop:
  "fst (shutdownDetected env w) \<Longrightarrow>
   processMessages env cfg (m # ms) w = (None, snd (shutdownDetected env w))"
  by (simp add: split_def)

lemma processMessages_next:
  assumes "\<not> fst (shutdownDetected env w)"
    and "fst (processMessage env cfg m (snd (shutdownDetected env w))) = None"
  shows "processMessages env cfg (m # ms) w =
         processMessages env cfg ms (snd (processMessage env cfg m (snd (shutdownDetected env w))))"
  using assms by (simp add: split_def split: option.splits)

lemma processMessages_throws:
  assumes "\<not> fst (shutdownDetected env w)"
    and "fst (processMessage env cfg m (snd (shutdownDetected env w))) = Some e"
  shows "processMessages env cfg (m # ms) w =
         (Some e, snd (processMessage env cfg m (snd (shutdownDetected env w))))"
  using assms by (simp add: split_def split: option.splits)

text \<open>A record that does not parse, with a dead-letter producer that rejects both sends.\<close>

lemma invalid_record_lost:
  assumes "parseMessage env m = None"
    and "dlqSendFault env (dlqSendCalls w) = Some e1"
    and "dlqSendFault env (Suc (dlqSendCalls w)) = Some e2"
  shows "fst (processMessage env cfg m w) = Some (DeadLetterAppendError e2)"
    and "dlqChannel (snd (processMessage env cfg m w)) = dlqChannel w"
    and "resolvedOffsets (snd (processMessage env cfg m w)) = resolvedOffsets w"
proof -
  define w1 where "w1 = snd (sendToDLQ env cfg m ''Invalid message format'' w)"
  define w2 where "w2 = bumpConsumer (\<lambda>c. c\<lparr>messagesFailed := messagesFailed c + 1\<rparr>) w1"
  have body: "processMessageTry env cfg m w = (Some (DeadLetterAppendError e1), w1)"
    by (simp add: invalid_record_try [OF assms(1)] sendToDLQ_refused [OF assms(2)] w1_def)
  have again: "dlqSendFault env (dlqSendCalls w2) = Some e2"
    by (simp add: w2_def w1_def bumpConsumer_frame sendToDLQ_frame assms(3))
  have pm: "processMessage env cfg m w =
      (Some (DeadLetterAppendError e2), snd (sendToDLQ env cfg m e1 w2))"
    by (simp add: processMessage_catch body w2_def [symmetric] sendToDLQ_refused [OF again])
  show "fst (processMessage env cfg m w) = Some (DeadLetterAppendError e2)"
    by (simp add: pm)
  have "dlqChannel (snd (sendToDLQ env cfg m e1 w2)) = dlqChannel w2"
    by (rule sendToDLQ_refused(2) [OF again])
  also have "\<dots> = dlqChannel w1"
    by (simp add: w2_def bumpConsumer_frame)
  also have "\<dots> = dlqChannel w"
    unfolding w1_def by (rule sendToDLQ_refused(2) [OF assms(2)])
  finally show "dlqChannel (snd (processMessage env cfg m w)) = dlqChannel w"
    by (simp add: pm)
  show "resolvedOffsets (snd (processMessage env cfg m w)) = resolvedOffsets w"
    by (simp add: pm sendToDLQ_frame w2_def bumpConsumer_frame w1_def)
qed

lemma parse_samples:
  "parseMessage sampleEnv (sampleMessage ''{id:}'' off) = None"
  "parseMessage sampleEnv (sampleMessage ''{id:e1}'' off) = Some (sampleEvent ''e1'')"
  "parseMessage sampleEnv (sampleMessage ''{id:e2}'' off) = Some (sampleEvent ''e2'')"
  by (simp_all add: parseMessage_def sampleEnv_def sampleParse_def sampleMessage_def
      sampleEvent_def getProp_def)

text \<open>
  Scenario B of the specification: an invalid record at offset 7 and a valid one at
  offset 8, with a store and a dead-letter topic that answer.
\<close>

theorem processMessage_invalid_witness:
  "parseMessage sampleEnv (sampleMessage ''{id:}'' 7) = None \<and>
   dlqSendFault sampleEnv (dlqSendCalls newWorld) = None \<and>
   \<not> fst (shutdownDetected sampleEnv newWorld) \<and>
   fst (processMessage sampleEnv defaultConfig (sampleMessage ''{id:}'' 7) newWorld) = None \<and>
   writer (snd (processMessage sampleEnv defaultConfig (sampleMessage ''{id:}'' 7) newWorld)) =
     newWriter \<and>
   writeEventCalls (snd (processMessage sampleEnv defaultConfig (sampleMessage ''{id:}'' 7)
     newWorld)) = 0 \<and>
   dlqChannel (snd (processMessage sampleEnv defaultConfig (sampleMessage ''{id:}'' 7) newWorld)) =
     [(''events-v1-dlq'',
       dlqMessageOf defaultConfig (sampleMessage ''{id:}'' 7) ''Invalid message format'' 1000)] \<and>
   resolvedOffsets (snd (processMessage sampleEnv defaultConfig (sampleMessage ''{id:}'' 7)
     newWorld)) = [7] \<and>
   fst (processMessages sampleEnv defaultConfig
     [sampleMessage ''{id:}'' 7, sampleMessage ''{id:e1}'' 8] newWorld) = None \<and>
   resolvedOffsets (snd (processMessages sampleEnv defaultConfig
     [sampleMessage ''{id:}'' 7, sampleMessage ''{id:e1}'' 8] newWorld)) = [7, 8] \<and>
   collection (snd (processMessages sampleEnv defaultConfig
     [sampleMessage ''{id:}'' 7, sampleMessage ''{id:e1}'' 8] newWorld)) =
     [(Some (JStr ''e1''), sampleEvent ''e1'')] \<and>
   dlqChannel (snd (processMessages sampleEnv defaultConfig
     [sampleMessage ''{id:}'' 7, sampleMessage ''{id:e1}'' 8] newWorld)) =
     [(''events-v1-dlq'',
       dlqMessageOf defaultConfig (sampleMessage ''{id:}'' 7) ''Invalid message format'' 1000)]"
proof -
  define w0 where "w0 = snd (shutdownDetected sampleEnv newWorld)"
  define w1 where "w1 = snd (processMessage sampleEnv defaultConfig (sampleMessage ''{id:}'' 7) w0)"
  define w2 where "w2 = snd (shutdownDetected sampleEnv w1)"
  define w3 where
    "w3 = snd (processMessage sampleEnv defaultConfig (sampleMessage ''{id:e1}'' 8) w2)"
  have run: "\<not> fst (shutdownDetected sampleEnv w)" for w
    by (simp add: shutdownDetected_def sampleEnv_def)
  have dlq: "dlqSendFault sampleEnv k = None" for k
    by (simp add: sampleEnv_def)
  have new: "writer newWorld = newWriter" "collection newWorld = []" "dlqChannel newWorld = []"
    "resolvedOffsets newWorld = []" "writeEventCalls newWorld = 0" "nowCalls newWorld = 0"
    by (simp_all add: newWorld_def)
  have c: "clock sampleEnv 0 = 1000" "dlqTopic (kafka defaultConfig) = ''events-v1-dlq''"
    by (simp_all add: sampleEnv_def defaultConfig_def)
  note a = processMessage_invalid [OF parse_samples(1) [of 7], where cfg = defaultConfig
      and w = newWorld and ms = "[sampleMessage ''{id:e1}'' 8]"]
  note b = processMessage_invalid [OF parse_samples(1) [of 7], where cfg = defaultConfig
      and w = w0 and ms = "[sampleMessage ''{id:e1}'' 8]", folded w1_def]
  have w1: "writer w1 = newWriter" "collection w1 = []" "resolvedOffsets w1 = [7]"
    "dlqChannel w1 = [(''events-v1-dlq'',
       dlqMessageOf defaultConfig (sampleMessage ''{id:}'' 7) ''Invalid message format'' 1000)]"
    using b by (simp_all add: dlq w0_def shutdownDetected_frame new c sampleMessage_def)
  have adm: "fst (canExecute defaultConfig (clock sampleEnv (nowCalls w2)) (writer w2))"
    by (simp add: w2_def shutdownDetected_frame w1 newWriter_def canExecute_def)
  have ok: "updateOneFault sampleEnv (updateOneCalls w2) = None"
    "heartbeatFault sampleEnv (heartbeatCalls w2) = None"
    by (simp_all add: sampleEnv_def)
  note s = processMessage_stored [OF parse_samples(2) [of 8] adm ok, folded w3_def]
  have id: "documentId (sampleEvent ''e1'') = Some (JStr ''e1'')"
    by (simp add: documentId_def getProp_def sampleEvent_def)
  have loop: "processMessages sampleEnv defaultConfig
     [sampleMessage ''{id:}'' 7, sampleMessage ''{id:e1}'' 8] newWorld = (None, w3)"
  proof -
    have "processMessages sampleEnv defaultConfig
       [sampleMessage ''{id:}'' 7, sampleMessage ''{id:e1}'' 8] newWorld =
       processMessages sampleEnv defaultConfig [sampleMessage ''{id:e1}'' 8] w1"
      using a by (simp add: dlq run w1_def w0_def)
    also have "\<dots> = processMessages sampleEnv defaultConfig [] w3"
      using processMessages_next [OF run, where cfg = defaultConfig
          and m = "sampleMessage ''{id:e1}'' 8" and w = w1 and ms = "[]"] s(1)
      by (simp add: w2_def w3_def)
    finally show ?thesis by simp
  qed
  have w3: "resolvedOffsets w3 = [7, 8]" "collection w3 = [(Some (JStr ''e1''), sampleEvent ''e1'')]"
    "dlqChannel w3 = [(''events-v1-dlq'',
       dlqMessageOf defaultConfig (sampleMessage ''{id:}'' 7) ''Invalid message format'' 1000)]"
    using s(2,3,4) by (simp_all add: w2_def shutdownDetected_frame w1 id sampleMessage_def)
  have off: "msg_offset (sampleMessage ''{id:}'' 7) = 7"
    by (simp add: sampleMessage_def)
  from a have first:
    "fst (processMessage sampleEnv defaultConfig (sampleMessage ''{id:}'' 7) newWorld) = None"
    "writer (snd (processMessage sampleEnv defaultConfig (sampleMessage ''{id:}'' 7) newWorld)) =
       newWriter"
    "writeEventCalls (snd (processMessage sampleEnv defaultConfig (sampleMessage ''{id:}'' 7)
       newWorld)) = 0"
    "dlqChannel (snd (processMessage sampleEnv defaultConfig (sampleMessage ''{id:}'' 7)
       newWorld)) =
     [(''events-v1-dlq'',
       dlqMessageOf defaultConfig (sampleMessage ''{id:}'' 7) ''Invalid message format'' 1000)]"
    "resolvedOffsets (snd (processMessage sampleEnv defaultConfig (sampleMessage ''{id:}'' 7)
       newWorld)) = [7]"
    by (simp_all add: dlq new c off)
  show ?thesis
    unfolding loop by (simp add: parse_samples dlq run first w3)
qed

text \<open>
  The claim as stated fails: when the dead-letter producer rejects the sends, the invalid
  record at offset 7 is neither appended to the dead-letter topic nor resolved, the batch
  fails with the error of the append, and the valid record after it is not processed.
\<close>

theorem processBatch_invalid_counterexample:
  "parseMessage dlqDownEnv (sampleMessage ''{id:}'' 7) = None \<and>
   fst (processBatch dlqDownEnv defaultConfig
     (sampleBatch [sampleMessage ''{id:}'' 7, sampleMessage ''{id:e1}'' 8]) newWorld) =
     Some (DeadLetterAppendError ''broker down'') \<and>
   dlqChannel (snd (processBatch dlqDownEnv defaultConfig
     (sampleBatch [sampleMessage ''{id:}'' 7, sampleMessage ''{id:e1}'' 8]) newWorld)) = [] \<and>
   resolvedOffsets (snd (processBatch dlqDownEnv defaultConfig
     (sampleBatch [sampleMessage ''{id:}'' 7, sampleMessage ''{id:e1}'' 8]) newWorld)) = [] \<and>
   collection (snd (processBatch dlqDownEnv defaultConfig
     (sampleBatch [sampleMessage ''{id:}'' 7, sampleMessage ''{id:e1}'' 8]) newWorld)) = []"
proof -
  define w0 where "w0 = bumpConsumer
    (\<lambda>c. c\<lparr>messagesReceived := messagesReceived c + int (length
       [sampleMessage ''{id:}'' 7, sampleMessage ''{id:e1}'' 8])\<rparr>) newWorld"
  define w1 where "w1 = snd (shutdownDetected dlqDownEnv w0)"
  define w2 where "w2 = snd (processMessage dlqDownEnv defaultConfig (sampleMessage ''{id:}'' 7) w1)"
  have p: "parseMessage dlqDownEnv (sampleMessage ''{id:}'' 7) = None"
    by (simp add: parseMessage_def dlqDownEnv_def sampleEnv_def sampleParse_def sampleMessage_def
      sampleEvent_def getProp_def)
  have run: "\<not> fst (shutdownDetected dlqDownEnv w0)"
    by (simp add: shutdownDetected_def dlqDownEnv_def sampleEnv_def)
  have down: "dlqSendFault dlqDownEnv k = Some ''broker down''" for k
    by (simp add: dlqDownEnv_def)
  note lost = invalid_record_lost [OF p down down, where w = w1 and cfg = defaultConfig,
      folded w2_def]
  have "processMessages dlqDownEnv defaultConfig
     [sampleMessage ''{id:}'' 7, sampleMessage ''{id:e1}'' 8] w0 =
     (Some (DeadLetterAppendError ''broker down''), w2)"
    using processMessages_throws [OF run, where cfg = defaultConfig
        and m = "sampleMessage ''{id:}'' 7"] lost(1)
    by (simp add: w1_def w2_def)
  then have pb: "processBatch dlqDownEnv defaultConfig
     (sampleBatch [sampleMessage ''{id:}'' 7, sampleMessage ''{id:e1}'' 8]) newWorld =
     (Some (DeadLetterAppendError ''broker down''), w2)"
    by (simp add: processBatch_def sampleBatch_def w0_def)
  have "dlqChannel w2 = []" "resolvedOffsets w2 = []"
    using lost(2,3)
    by (simp_all add: w1_def shutdownDetected_frame w0_def bumpConsumer_frame newWorld_def)
  moreover have "collection w2 = []"
    using invalid_record_skips_writer(2) [OF p, where w = w1 and cfg = defaultConfig]
    by (simp add: w2_def w1_def shutdownDetected_frame w0_def bumpConsumer_frame newWorld_def)
  ultimately show ?thesis using p pb by simp
qed

section \<open>Offsets resolved by \<open>processBatch\<close>\<close>

lemma keeps_refl: "keeps w w"
  by (simp add: keeps_def)

lemma keeps_trans: "keeps w w1 \<Longrightarrow> keeps w1 w2 \<Longrightarrow> keeps w w2"
  unfolding keeps_def by (meson subset_trans)

lemma keeps_same:
  "collection w' = collection w \<Longrightarrow> dlqChannel w' = dlqChannel w \<Longrightarrow> keeps w w'"
  by (simp add: keeps_def)

lemma durablyHandled_keeps:
  "keeps w w' \<Longrightarrow> durablyHandled env w m \<Longrightarrow> durablyHandled env w' m"
  by (auto simp: keeps_def durablyHandled_def stored_def deadLettered_def list_ex_iff
      split: option.splits)

text \<open>A write keeps what is stored, and a write that succeeds has the record stored.\<close>

lemma writeEvent_keeps:
  "keeps w (snd (writeEvent env cfg event w))"
  "fst (writeEvent env cfg event w) = Inr r \<Longrightarrow>
   documentId event \<in> set (map fst (collection (snd (writeEvent env cfg event w))))"
proof -
  consider (rejected) "\<not> fst (canExecute cfg (clock env (nowCalls w)) (writer w))"
    | (faulted) e where "fst (canExecute cfg (clock env (nowCalls w)) (writer w))"
        "updateOneFault env (updateOneCalls w) = Some e"
    | (answered) "fst (canExecute cfg (clock env (nowCalls w)) (writer w))"
        "updateOneFault env (updateOneCalls w) = None"
    by (cases "updateOneFault env (updateOneCalls w)") auto
  then have "keeps w (snd (writeEvent env cfg event w)) \<and>
    (\<forall>r. fst (writeEvent env cfg event w) = Inr r \<longrightarrow>
       documentId event \<in> set (map fst (collection (snd (writeEvent env cfg event w)))))"
  proof cases
    case rejected
    then show ?thesis by (simp add: writeEvent_rejected keeps_def)
  next
    case faulted
    from writeEvent_faulted(1,3) [OF faulted, of event] show ?thesis
      by (simp add: keeps_def writeEvent_frame)
  next
    case answered
    from writeEvent_stored(2) [OF answered, of event] show ?thesis
      by (auto simp: keeps_def writeEvent_frame)
  qed
  then show "keeps w (snd (writeEvent env cfg event w))"
    and "fst (writeEvent env cfg event w) = Inr r \<Longrightarrow>
      documentId event \<in> set (map fst (collection (snd (writeEvent env cfg event w))))"
    by auto
qed

lemma sleep_frame:
  "collection (sleep d w) = collection w" "dlqChannel (sleep d w) = dlqChannel w"
  "resolvedOffsets (sleep d w) = resolvedOffsets w"
  by (simp_all add: sleep_def)

lemma writeEventWithRetry_keeps:
  "keeps w (snd (writeEventWithRetry env cfg event attempt w)) \<and>
   resolvedOffsets (snd (writeEventWithRetry env cfg event attempt w)) = resolvedOffsets w \<and>
   dlqChannel (snd (writeEventWithRetry env cfg event attempt w)) = dlqChannel w \<and>
   (\<forall>r. fst (writeEventWithRetry env cfg event attempt w) = Inr r \<longrightarrow>
      documentId event \<in>
        set (map fst (collection (snd (writeEventWithRetry env cfg event attempt w)))))"
proof (induction env cfg event attempt w rule: writeEventWithRetry.induct)
  case (1 env cfg event attempt w)
  define w1 where "w1 = snd (writeEvent env cfg event w)"
  have once: "keeps w w1 \<and> resolvedOffsets w1 = resolvedOffsets w \<and> dlqChannel w1 = dlqChannel w \<and>
      (\<forall>r. fst (writeEvent env cfg event w) = Inr r \<longrightarrow>
         documentId event \<in> set (map fst (collection w1)))"
    using writeEvent_keeps [where w = w and env = env and cfg = cfg and event = event]
    by (simp add: w1_def writeEvent_frame)
  show ?case
  proof (cases "attemptFails env cfg event w 0")
    case False
    then show ?thesis
      using once by (simp add: writeEventWithRetry_returns w1_def)
  next
    case True
    show ?thesis
    proof (cases "maxAttempts (retry cfg) \<le> int attempt")
      case limit: True
      with True show ?thesis
        using once by (simp add: writeEventWithRetry_gives_up w1_def)
    next
      case False
      then have lt: "int attempt < maxAttempts (retry cfg)" by simp
      obtain e where e: "writeEvent env cfg event w = (Inl e, w1)"
        using True by (cases "writeEvent env cfg event w"; cases "fst (writeEvent env cfg event w)")
          (auto simp: attemptFails_def attemptWorld_def w1_def)
      from "1.IH" [OF e [symmetric] refl False]
      have ih: "keeps (sleep (retryDelay cfg attempt) w1)
          (snd (writeEventWithRetry env cfg event (attempt + 1) (sleep (retryDelay cfg attempt) w1))) \<and>
        resolvedOffsets (snd (writeEventWithRetry env cfg event (attempt + 1)
          (sleep (retryDelay cfg attempt) w1))) = resolvedOffsets (sleep (retryDelay cfg attempt) w1) \<and>
        dlqChannel (snd (writeEventWithRetry env cfg event (attempt + 1)
          (sleep (retryDelay cfg attempt) w1))) = dlqChannel (sleep (retryDelay cfg attempt) w1) \<and>
        (\<forall>r. fst (writeEventWithRetry env cfg event (attempt + 1)
                (sleep (retryDelay cfg attempt) w1)) = Inr r \<longrightarrow>
           documentId event \<in> set (map fst (collection (snd (writeEventWithRetry env cfg event
             (attempt + 1) (sleep (retryDelay cfg attempt) w1))))))" .
      have k: "keeps w (sleep (retryDelay cfg attempt) w1)"
        using once by (simp add: keeps_def sleep_frame)
      have unf: "writeEventWithRetry env cfg event attempt w =
          writeEventWithRetry env cfg event (attempt + 1) (sleep (retryDelay cfg attempt) w1)"
        using writeEventWithRetry_again [OF True lt] by (simp add: w1_def)
      show ?thesis
        unfolding unf using ih once keeps_trans [OF k] by (simp add: sleep_frame)
    qed
  qed
qed

lemma sendToDLQ_keeps:
  "keeps w (snd (sendToDLQ env cfg m reason w))"
  "fst (sendToDLQ env cfg m reason w) = None \<Longrightarrow>
   deadLettered (snd (sendToDLQ env cfg m reason w)) m"
  by (auto simp: keeps_def deadLettered_def sendToDLQ_def bumpConsumer_def dateNow_def Let_def
      dlqMessageOf_def split: option.splits)

lemma resolvedAreHandled_iff:
  "resolvedAreHandled env ms w \<longleftrightarrow>
   (\<forall>off \<in> set (resolvedOffsets w). \<exists>m \<in> set ms. msg_offset m = off \<and> durablyHandled env w m)"
  by (simp add: resolvedAreHandled_def list_all_iff list_ex_iff)

lemma handles_trans:
  assumes "handles env m w w1" and "handles env m w1 w2"
  shows "handles env m w w2"
  using assms durablyHandled_keeps [of w1 w2 env m] keeps_trans [of w w1 w2]
  unfolding handles_def by auto

lemma handles_same:
  "collection w' = collection w \<Longrightarrow> dlqChannel w' = dlqChannel w \<Longrightarrow>
   resolvedOffsets w' = resolvedOffsets w \<Longrightarrow> handles env m w w'"
  by (simp add: handles_def keeps_same)

lemma handles_resolve:
  assumes "durablyHandled env w m"
  shows "handles env m w (resolveOffset (msg_offset m) w)"
  using assms
  by (simp add: handles_def keeps_def resolveOffset_frame durablyHandled_def stored_def
      deadLettered_def split: option.splits)

lemma handles_sendToDLQ: "handles env m w (snd (sendToDLQ env cfg m reason w))"
  by (simp add: handles_def sendToDLQ_keeps sendToDLQ_frame)

lemma handles_bumpConsumer: "handles env m w (bumpConsumer f w)"
  by (simp add: handles_same bumpConsumer_frame)

text \<open>The \<open>try\<close> block, then the whole loop body.\<close>

lemma processMessageTry_handles: "handles env m w (snd (processMessageTry env cfg m w))"
proof (cases "parseMessage env m")
  case None
  define w1 where "w1 = snd (sendToDLQ env cfg m ''Invalid message format'' w)"
  have sent: "handles env m w w1"
    unfolding w1_def by (rule handles_sendToDLQ)
  show ?thesis
  proof (cases "fst (sendToDLQ env cfg m ''Invalid message format'' w)")
    case ok: None
    then have "durablyHandled env w1 m"
      by (simp add: durablyHandled_def w1_def sendToDLQ_keeps)
    then have "handles env m w1 (resolveOffset (msg_offset m) w1)"
      by (rule handles_resolve)
    with sent have "handles env m w (resolveOffset (msg_offset m) w1)"
      by (rule handles_trans)
    then show ?thesis
      by (simp add: invalid_record_try [OF None] ok w1_def)
  next
    case (Some e)
    with sent show ?thesis
      by (simp add: invalid_record_try [OF None] w1_def)
  qed
next
  case (Some event)
  define w1 where "w1 = snd (writeEventWithRetry env cfg event 1 w)"
  note wr = writeEventWithRetry_keeps [of w env cfg event 1, folded w1_def]
  have written: "handles env m w w1"
    using wr by (simp add: handles_def)
  show ?thesis
  proof (cases "fst (writeEventWithRetry env cfg event 1 w)")
    case (Inl e)
    then have "processMessageTry env cfg m w = (Some e, w1)"
      by (cases "writeEventWithRetry env cfg event 1 w")
        (simp add: processMessageTry_def Some w1_def)
    with written show ?thesis by simp
  next
    case (Inr r)
    define w2 where "w2 =
      (if success r then
         (let (now, w') = dateNow env
                (bumpConsumer (\<lambda>c. c\<lparr>messagesProcessed := messagesProcessed c + 1\<rparr>) w1)
          in bumpConsumer (\<lambda>c. c\<lparr>lastProcessedTimestamp := Some now\<rparr>) w')
       else w1)"
    have w2: "collection w2 = collection w1" "dlqChannel w2 = dlqChannel w1"
      "resolvedOffsets w2 = resolvedOffsets w1"
      by (simp_all add: w2_def dateNow_def bumpConsumer_def)
    have "documentId event \<in> set (map fst (collection w1))"
      using wr Inr by simp
    then have "durablyHandled env w2 m"
      by (simp add: durablyHandled_def stored_def Some w2)
    then have "handles env m w2 (resolveOffset (msg_offset m) w2)"
      by (rule handles_resolve)
    moreover have "handles env m w1 w2"
      by (simp add: handles_same w2)
    moreover have "handles env m (resolveOffset (msg_offset m) w2)
        (snd (heartbeat env (resolveOffset (msg_offset m) w2)))"
      by (simp add: handles_same heartbeat_def)
    ultimately have "handles env m w (snd (heartbeat env (resolveOffset (msg_offset m) w2)))"
      using written by (blast intro: handles_trans)
    moreover have "processMessageTry env cfg m w = heartbeat env (resolveOffset (msg_offset m) w2)"
      using Inr by (cases "writeEventWithRetry env cfg event 1 w")
        (simp add: processMessageTry_def Some w1_def w2_def)
    ultimately show ?thesis by simp
  qed
qed

lemma processMessage_handles: "handles env m w (snd (processMessage env cfg m w))"
proof (cases "fst (processMessageTry env cfg m w)")
  case None
  then show ?thesis
    by (simp add: processMessage_catch processMessageTry_handles)
next
  case (Some e)
  define w1 where "w1 = snd (processMessageTry env cfg m w)"
  define w2 where "w2 = bumpConsumer (\<lambda>c. c\<lparr>messagesFailed := messagesFailed c + 1\<rparr>) w1"
  define w3 where "w3 = snd (sendToDLQ env cfg m (message e) w2)"
  have upto: "handles env m w w3"
    unfolding w3_def w2_def w1_def
    by (blast intro: handles_trans processMessageTry_handles handles_bumpConsumer
        handles_sendToDLQ)
  show ?thesis
  proof (cases "fst (sendToDLQ env cfg m (message e) w2)")
    case ok: None
    then have "durablyHandled env w3 m"
      by (simp add: durablyHandled_def w3_def sendToDLQ_keeps)
    then have "handles env m w3 (resolveOffset (msg_offset m) w3)"
      by (rule handles_resolve)
    with upto have "handles env m w (resolveOffset (msg_offset m) w3)"
      by (rule handles_trans)
    then show ?thesis
      using ok by (simp add: processMessage_catch Some Let_def w3_def w2_def w1_def)
  next
    case failed: (Some dlqError)
    with upto show ?thesis
      by (simp add: processMessage_catch Some Let_def w3_def w2_def w1_def)
  qed
qed

lemma durablyHandled_same:
  assumes "collection w' = collection w" and "dlqChannel w' = dlqChannel w"
  shows "durablyHandled env w' m = durablyHandled env w m"
  using assms by (simp add: durablyHandled_def stored_def deadLettered_def split: option.splits)

lemma resolvedAreHandled_same:
  assumes "collection w' = collection w" and "dlqChannel w' = dlqChannel w"
    and "resolvedOffsets w' = resolvedOffsets w"
  shows "resolvedAreHandled env ms w' = resolvedAreHandled env ms w"
  by (simp add: resolvedAreHandled_def durablyHandled_same [OF assms(1,2)] assms(3))

lemma resolvedAreHandled_step:
  assumes "resolvedAreHandled env ms w" and "handles env m w w'" and "m \<in> set ms"
  shows "resolvedAreHandled env ms w'"
  using assms durablyHandled_keeps [of w w' env]
  unfolding resolvedAreHandled_iff handles_def by (metis insert_iff)

lemma processMessages_resolved:
  assumes "set ms \<subseteq> set batch" and "resolvedAreHandled env batch w"
  shows "resolvedAreHandled env batch (snd (processMessages env cfg ms w))"
  using assms
proof (induction ms arbitrary: w)
  case Nil
  then show ?case by simp
next
  case (Cons m ms)
  define w1 where "w1 = snd (shutdownDetected env w)"
  define w2 where "w2 = snd (processMessage env cfg m w1)"
  have m: "m \<in> set batch" and ms: "set ms \<subseteq> set batch"
    using Cons.prems(1) by auto
  have "handles env m w w1"
    by (simp add: w1_def handles_same shutdownDetected_frame)
  with Cons.prems(2) have h1: "resolvedAreHandled env batch w1"
    using m by (rule resolvedAreHandled_step)
  have "handles env m w1 w2"
    unfolding w2_def by (rule processMessage_handles)
  with h1 have h2: "resolvedAreHandled env batch w2"
    using m by (rule resolvedAreHandled_step)
  show ?case
  proof (cases "fst (shutdownDetected env w)")
    case True
    then have "processMessages env cfg (m # ms) w = (None, w1)"
      unfolding w1_def by (rule processMessages_stop)
    with h1 show ?thesis by (simp del: processMessages.simps)
  next
    case False
    show ?thesis
    proof (cases "fst (processMessage env cfg m w1)")
      case None
      with False have "processMessages env cfg (m # ms) w = processMessages env cfg ms w2"
        unfolding w2_def w1_def by (rule processMessages_next)
      with Cons.IH [OF ms h2] show ?thesis by (simp del: processMessages.simps)
    next
      case (Some e)
      with False have "processMessages env cfg (m # ms) w = (Some e, w2)"
        unfolding w2_def w1_def by (rule processMessages_throws)
      with h2 show ?thesis by (simp del: processMessages.simps)
    qed
  qed
qed

text \<open>
  However a batch goes (stored, dead-lettered, shutdown, or a failed dead-letter append),
  \<open>processBatch\<close> itself passes to \<open>resolveOffset\<close> only offsets of records for which
  the collection holds a document under their document's \<open>_id\<close> (their own or, for a
  duplicate \<open>_id\<close>, one inserted before) or the dead-letter topic holds their key and
  value.
\<close>

lemma processBatch_resolves_handled:
  assumes "resolvedAreHandled env (messages b) w"
  shows "resolvedAreHandled env (messages b) (snd (processBatch env cfg b w))"
proof -
  define w0 where "w0 = bumpConsumer
    (\<lambda>c. c\<lparr>messagesReceived := messagesReceived c + int (length (messages b))\<rparr>) w"
  have "resolvedAreHandled env (messages b) w0 = resolvedAreHandled env (messages b) w"
    unfolding w0_def by (rule resolvedAreHandled_same) (simp_all add: bumpConsumer_frame)
  with assms have "resolvedAreHandled env (messages b) w0"
    by simp
  then have r: "resolvedAreHandled env (messages b) (snd (processMessages env cfg (messages b) w0))"
    by (rule processMessages_resolved [OF subset_refl])
  show ?thesis
  proof (cases "fst (processMessages env cfg (messages b) w0)")
    case None
    then have "snd (processBatch env cfg b w) =
        bumpConsumer (\<lambda>c. c\<lparr>batchesProcessed := batchesProcessed c + 1\<rparr>)
          (snd (processMessages env cfg (messages b) w0))"
      by (cases "processMessages env cfg (messages b) w0") (simp add: processBatch_def w0_def)
    moreover have "resolvedAreHandled env (messages b)
        (bumpConsumer (\<lambda>c. c\<lparr>batchesProcessed := batchesProcessed c + 1\<rparr>)
          (snd (processMessages env cfg (messages b) w0))) =
        resolvedAreHandled env (messages b) (snd (processMessages env cfg (messages b) w0))"
      by (rule resolvedAreHandled_same) (simp_all add: bumpConsumer_frame)
    ultimately show ?thesis using r by simp
  next
    case (Some e)
    then have "snd (processBatch env cfg b w) = snd (processMessages env cfg (messages b) w0)"
      by (cases "processMessages env cfg (messages b) w0") (simp add: processBatch_def w0_def)
    with r show ?thesis by simp
  qed
qed

section \<open>Shutdown in the middle of a batch\<close>

lemma parseMessage_shutdownEnv:
  "parseMessage (shutdownEnv n) m = parseMessage sampleEnv m"
  by (simp add: parseMessage_def shutdownEnv_def split: option.splits)

text \<open>
  Claim C1, at a batch of two valid records (offsets 10 and 11) of which the consumer is
  found stopped before the second. \<open>processBatch\<close> stores the first record, resolves its
  offset and leaves the loop; it returns without an error, and the handler registered by
  \<open>start\<close> (with \<open>eachBatchAutoResolve: true\<close>) then has the last offset of the batch
  resolved. So offset 11 is resolved although its record is neither in the store nor in
  the dead-letter topic, while \<open>processBatch\<close> alone resolves handled offsets only
  (\<open>processBatch_resolves_handled\<close>).
\<close>

theorem runEachBatch_shutdown_resolves_unhandled:
  "fst (runEachBatch (shutdownEnv 1) defaultConfig
     (sampleBatch [sampleMessage ''{id:e1}'' 10, sampleMessage ''{id:e2}'' 11]) newWorld) = None \<and>
   resolvedOffsets (snd (processBatch (shutdownEnv 1) defaultConfig
     (sampleBatch [sampleMessage ''{id:e1}'' 10, sampleMessage ''{id:e2}'' 11]) newWorld)) = [10] \<and>
   resolvedOffsets (snd (runEachBatch (shutdownEnv 1) defaultConfig
     (sampleBatch [sampleMessage ''{id:e1}'' 10, sampleMessage ''{id:e2}'' 11]) newWorld)) =
     [10, 11] \<and>
   collection (snd (runEachBatch (shutdownEnv 1) defaultConfig
     (sampleBatch [sampleMessage ''{id:e1}'' 10, sampleMessage ''{id:e2}'' 11]) newWorld)) =
     [(Some (JStr ''e1''), sampleEvent ''e1'')] \<and>
   dlqChannel (snd (runEachBatch (shutdownEnv 1) defaultConfig
     (sampleBatch [sampleMessage ''{id:e1}'' 10, sampleMessage ''{id:e2}'' 11]) newWorld)) = [] \<and>
   \<not> durablyHandled (shutdownEnv 1)
     (snd (runEachBatch (shutdownEnv 1) defaultConfig
        (sampleBatch [sampleMessage ''{id:e1}'' 10, sampleMessage ''{id:e2}'' 11]) newWorld))
     (sampleMessage ''{id:e2}'' 11)"
proof -
  define E where "E = shutdownEnv 1"
  define ms where "ms = [sampleMessage ''{id:e1}'' 10, sampleMessage ''{id:e2}'' 11]"
  define w0 where "w0 = bumpConsumer
    (\<lambda>c. c\<lparr>messagesReceived := messagesReceived c + int (length ms)\<rparr>) newWorld"
  define w1 where "w1 = snd (shutdownDetected E w0)"
  define w2 where "w2 = snd (processMessage E defaultConfig (sampleMessage ''{id:e1}'' 10) w1)"
  define w3 where "w3 = snd (shutdownDetected E w2)"
  define w4 where "w4 = bumpConsumer (\<lambda>c. c\<lparr>batchesProcessed := batchesProcessed c + 1\<rparr>) w3"
  have w0: "runningChecks w0 = 0" "collection w0 = []" "dlqChannel w0 = []"
    "resolvedOffsets w0 = []" "writer w0 = newWriter"
    by (simp_all add: w0_def bumpConsumer_def newWorld_def)
  have run: "\<not> fst (shutdownDetected E w0)"
    by (simp add: shutdownDetected_def E_def shutdownEnv_def sampleEnv_def w0)
  have w1: "runningChecks w1 = 1" "collection w1 = []" "dlqChannel w1 = []"
    "resolvedOffsets w1 = []" "writer w1 = newWriter"
    by (simp_all add: w1_def shutdownDetected_def w0)
  have p1: "parseMessage E (sampleMessage ''{id:e1}'' 10) = Some (sampleEvent ''e1'')"
    and p2: "parseMessage E (sampleMessage ''{id:e2}'' 11) = Some (sampleEvent ''e2'')"
    by (simp_all add: E_def parseMessage_shutdownEnv parse_samples)
  have adm: "fst (canExecute defaultConfig (clock E (nowCalls w1)) (writer w1))"
    by (simp add: w1 newWriter_def canExecute_def)
  have ok: "updateOneFault E (updateOneCalls w1) = None" "heartbeatFault E (heartbeatCalls w1) = None"
    by (simp_all add: E_def shutdownEnv_def sampleEnv_def)
  note s = processMessage_stored [OF p1 adm ok, folded w2_def]
  have id: "documentId (sampleEvent ''e1'') = Some (JStr ''e1'')"
    "documentId (sampleEvent ''e2'') = Some (JStr ''e2'')"
    by (simp_all add: documentId_def getProp_def sampleEvent_def)
  have w2: "runningChecks w2 = 1" "collection w2 = [(Some (JStr ''e1''), sampleEvent ''e1'')]"
    "dlqChannel w2 = []" "resolvedOffsets w2 = [10]"
    using s(2,3,4,5) by (simp_all add: w1 id sampleMessage_def)
  have stop: "fst (shutdownDetected E w2)"
    by (simp add: shutdownDetected_def E_def shutdownEnv_def w2)
  have loop: "processMessages E defaultConfig ms w0 = (None, w3)"
  proof -
    have "processMessages E defaultConfig ms w0 =
        processMessages E defaultConfig [sampleMessage ''{id:e2}'' 11] w2"
      unfolding ms_def w2_def w1_def
      by (rule processMessages_next [OF run]) (simp add: s(1) [unfolded w2_def w1_def])
    also have "\<dots> = (None, w3)"
      unfolding w3_def by (rule processMessages_stop [OF stop])
    finally show ?thesis .
  qed
  have pb: "processBatch E defaultConfig (sampleBatch ms) newWorld = (None, w4)"
    using loop by (simp add: processBatch_def sampleBatch_def w0_def w4_def)
  have w4: "collection w4 = [(Some (JStr ''e1''), sampleEvent ''e1'')]"
    "dlqChannel w4 = []" "resolvedOffsets w4 = [10]"
    by (simp_all add: w4_def bumpConsumer_frame w3_def shutdownDetected_frame w2)
  have last: "msg_offset (last ms) = 11" "ms \<noteq> []"
    by (simp_all add: ms_def sampleMessage_def)
  have msgs: "messages (sampleBatch ms) = ms"
    by (simp add: sampleBatch_def)
  have rb: "runEachBatch E defaultConfig (sampleBatch ms) newWorld =
      (None, resolveOffset 11 w4)"
    using last by (simp add: runEachBatch_def eachBatch_def pb eachBatchAutoResolve_def msgs)
  have "\<not> durablyHandled E (resolveOffset 11 w4) (sampleMessage ''{id:e2}'' 11)"
    by (simp add: durablyHandled_def stored_def deadLettered_def p2 resolveOffset_frame w4 id)
  then show ?thesis
    unfolding E_def [symmetric] ms_def [symmetric]
    by (simp add: rb pb resolveOffset_frame w4)
qed

end
